theory Spec2Isabelle
  imports Complex_Main
begin

section \<open>The proximity check of sattle: \<^verbatim>\<open>calc_sat\<close> in \<^verbatim>\<open>src/docker/sattle.cpp\<close>\<close>

text \<open>
  The function \<^verbatim>\<open>calc_sat\<close> evaluates, for each of two Julian dates, where a satellite
  appears from an observing site and whether that position is within a search radius of
  a target direction.

  Conventions of the embedding.
  \<^item> A C++ \<^verbatim>\<open>double\<close> is a real number: arithmetic is exact; rounding, infinities and
    NaN are not represented. The one place where rounding decides the behaviour, the
    subtraction inside the wrap-around loop, is modelled a second time in binary64
    arithmetic.
  \<^item> \<^verbatim>\<open>PI\<close> is the decimal literal of the \<^verbatim>\<open>#define\<close>, a rational number.
  \<^item> A fixed-size array (\<^verbatim>\<open>double jd[2]\<close>, \<^verbatim>\<open>double ra[2]\<close>) is a list, read with
    \<open>!\<close> and written with list update; the loop index stays below 2.
  \<^item> The routines of the satellite library (\<^verbatim>\<open>norad.h\<close>, \<^verbatim>\<open>observe.h\<close>) are not part
    of this repository. They are parameters, collected in the record \<open>collab\<close>. A
    routine called with \<^verbatim>\<open>&tle\<close> returns the element set it leaves behind, so that a
    routine writing through the pointer is covered.
  \<^item> Where the question is what a run may depend on, the function is modelled a second
    time over its memory, with a cell for every automatic variable that starts with
    whatever an earlier run left there.
  \<^item> Console output (\<^verbatim>\<open>printf\<close>) is left out.
\<close>

subsection \<open>Constants and data\<close>

text \<open>
  The member \<^verbatim>\<open>i\<close> of \<^verbatim>\<open>struct Inputs\<close> is the field \<open>inputs_i\<close>; \<^verbatim>\<open>calc_sat\<close> does not use
  it (its loop has an index of its own).
\<close>

definition PI :: real where
  "PI = 3.141592653589793238462643383279"

record Inputs =
  lat :: real
  lon :: real
  ht_in_meters :: real
  jd :: "real list"
  search_radius :: real
  target_ra :: real
  target_dec :: real
  rho_sin_phi :: real
  rho_cos_phi :: real
  inputs_i :: int
  header_line_shown :: int

record Outputs =
  ra :: "real list"
  dec :: "real list"

text \<open>The default member initialisers of \<^verbatim>\<open>struct Outputs\<close>.\<close>

definition Outputs_init :: Outputs where
  "Outputs_init = \<lparr>ra = [0, 0], dec = [0, 0]\<rparr>"

text \<open>
  The element set \<^verbatim>\<open>tle_t\<close>, with the members that the Python binding of the source file
  exposes. \<^verbatim>\<open>calc_sat\<close> itself reads only \<^verbatim>\<open>epoch\<close>.
\<close>

record tle_t =
  epoch :: real
  xndt2o :: real
  xndd6o :: real
  bstar :: real
  xincl :: real
  xnodeo :: real
  eo :: real
  omegao :: real
  xmo :: real
  xno :: real
  norad_number :: int
  bulletin_number :: int
  revolution_number :: int
  classification :: char
  ephemeris_type :: char
  intl_desig :: string

subsection \<open>The library routines\<close>

text \<open>
  Modelled from the spec: the routines declared in \<^verbatim>\<open>norad.h\<close> and \<^verbatim>\<open>observe.h\<close>, which
  are missing from the sources. Each is a function from its arguments to what it writes
  through its output pointers, as the table of external interfaces describes them; a
  routine that is handed \<^verbatim>\<open>&tle\<close> also returns the element set as it leaves it. The
  propagators \<^verbatim>\<open>SGP4\<close> and \<^verbatim>\<open>SDP4\<close> return a status as well (0 for success, anything
  else for a failed propagation), which is the failure signal the spec attributes to
  them.
\<close>

record collab =
  earth_lat_alt_to_parallax :: "real \<Rightarrow> real \<Rightarrow> real \<times> real"
  observer_cartesian_coords :: "real \<Rightarrow> real \<Rightarrow> real \<Rightarrow> real \<Rightarrow> real list"
  select_ephemeris :: "tle_t \<Rightarrow> int \<times> tle_t"
  SDP4_init :: "tle_t \<Rightarrow> real list \<times> tle_t"
  SDP4 :: "real \<Rightarrow> tle_t \<Rightarrow> real list \<Rightarrow> (int \<times> real list) \<times> tle_t"
  SGP4_init :: "tle_t \<Rightarrow> real list \<times> tle_t"
  SGP4 :: "real \<Rightarrow> tle_t \<Rightarrow> real list \<Rightarrow> (int \<times> real list) \<times> tle_t"
  get_satellite_ra_dec_delta :: "real list \<Rightarrow> real list \<Rightarrow> real \<times> real \<times> real"
  epoch_of_date_to_j2000 :: "real \<Rightarrow> real \<times> real \<Rightarrow> real \<times> real"

subsection \<open>Arithmetic of the standard library\<close>

text \<open>
  \<^verbatim>\<open>fmod x y\<close>: the remainder of the division truncated towards zero; it has the sign
  of \<open>x\<close>. The only divisor in the source is \<^verbatim>\<open>PI + PI\<close>.
\<close>

definition trunc :: "real \<Rightarrow> int" where
  "trunc r = (if r < 0 then \<lceil>r\<rceil> else \<lfloor>r\<rfloor>)"

definition fmod :: "real \<Rightarrow> real \<Rightarrow> real" where
  "fmod x y = x - y * of_int (trunc (x / y))"

subsection \<open>One epoch\<close>

text \<open>
  The local state of a call: the two by-value parameters and the result under
  construction.
\<close>

record frame =
  f_inputs :: Inputs
  f_tle :: tle_t
  f_outputs :: Outputs

text \<open>Lines 135 to 144: initialise and run the selected propagator on the local element set.\<close>

definition propagate :: "collab \<Rightarrow> int \<Rightarrow> real \<Rightarrow> tle_t \<Rightarrow> (int \<times> real list) \<times> tle_t" where
  "propagate c is_deep t_since tle =
     (if is_deep \<noteq> 0
      then (case SDP4_init c tle of (sat_params, tle1) \<Rightarrow> SDP4 c t_since tle1 sat_params)
      else (case SGP4_init c tle of (sat_params, tle1) \<Rightarrow> SGP4 c t_since tle1 sat_params))"

text \<open>
  Lines 114 to 147: the apparent position at epoch \<open>k\<close>. The result is the status the
  propagator returned, the position \<open>(ra, dec, dist_to_satellite)\<close> and the frame with
  the parallax constants and the element set as the routines left them. The status is
  only reported here; the source drops it.
\<close>

definition apparent :: "collab \<Rightarrow> nat \<Rightarrow> frame \<Rightarrow> (int \<times> real \<times> real \<times> real) \<times> frame" where
  "apparent c k fr =
     (let inputs0 = f_inputs fr;
          (rc, rs) = earth_lat_alt_to_parallax c (lat inputs0 * PI / 180) (ht_in_meters inputs0);
          inputs1 = inputs0\<lparr>rho_cos_phi := rc, rho_sin_phi := rs\<rparr>;
          observer_loc = observer_cartesian_coords c (jd inputs1 ! k) (lon inputs1 * PI / 180)
                           (rho_cos_phi inputs1) (rho_sin_phi inputs1);
          (is_deep, tle1) = select_ephemeris c (f_tle fr);
          t_since = (jd inputs1 ! k - epoch tle1) * 1440;
          ((status, pos), tle2) = propagate c is_deep t_since tle1;
          (ra0, dec0, dist_to_satellite) = get_satellite_ra_dec_delta c observer_loc pos;
          (ra1, dec1) = epoch_of_date_to_j2000 c (jd inputs1 ! k) (ra0, dec0)
      in ((status, ra1, dec1, dist_to_satellite), fr\<lparr>f_inputs := inputs1, f_tle := tle2\<rparr>))"

text \<open>Lines 150 and 151: \<^verbatim>\<open>while( d_ra > PI) d_ra -= PI + PI;\<close>\<close>

function wrap_d_ra :: "real \<Rightarrow> real" where
  "wrap_d_ra d_ra = (if d_ra > PI then wrap_d_ra (d_ra - (PI + PI)) else d_ra)"
  by pat_completeness auto
termination
proof (relation "measure (\<lambda>d_ra. nat \<lceil>(d_ra - PI) / (PI + PI)\<rceil>)")
  show "wf (measure (\<lambda>d_ra. nat \<lceil>(d_ra - PI) / (PI + PI)\<rceil>))"
    by simp
next
  fix d_ra :: real
  assume gt: "PI < d_ra"
  have pos: "0 < PI + PI"
    by (simp add: PI_def)
  have shift: "(d_ra - (PI + PI) - PI) / (PI + PI) = (d_ra - PI) / (PI + PI) - 1"
    using pos by (simp add: field_simps)
  have "0 < (d_ra - PI) / (PI + PI)"
    using gt pos by simp
  then have "0 < \<lceil>(d_ra - PI) / (PI + PI)\<rceil>"
    by simp
  moreover have "\<lceil>(d_ra - (PI + PI) - PI) / (PI + PI)\<rceil> = \<lceil>(d_ra - PI) / (PI + PI)\<rceil> - 1"
    by (simp only: shift ceiling_diff_one)
  ultimately have "nat \<lceil>(d_ra - (PI + PI) - PI) / (PI + PI)\<rceil> < nat \<lceil>(d_ra - PI) / (PI + PI)\<rceil>"
    by linarith
  then show "(d_ra - (PI + PI), d_ra) \<in> measure (\<lambda>d_ra. nat \<lceil>(d_ra - PI) / (PI + PI)\<rceil>)"
    by (simp only: in_measure)
qed

text \<open>Lines 148 to 153: the offset in degrees between the apparent and the target direction.\<close>

definition d_ra_of :: "real \<Rightarrow> real \<Rightarrow> real" where
  "d_ra_of sat_ra tgt_ra = wrap_d_ra (sat_ra - tgt_ra + PI * 4)"

definition radius_of :: "real \<Rightarrow> real \<Rightarrow> real \<Rightarrow> real \<Rightarrow> real" where
  "radius_of sat_ra sat_dec tgt_ra tgt_dec =
     (let d_ra = d_ra_of sat_ra tgt_ra;
          d_dec = sat_dec - tgt_dec
      in sqrt (d_ra * d_ra + d_dec * d_dec) * 180 / PI)"

text \<open>Lines 161 to 177: the body of \<^verbatim>\<open>if( radius < inputs.search_radius)\<close>.\<close>

definition store_match :: "nat \<Rightarrow> real \<Rightarrow> real \<Rightarrow> frame \<Rightarrow> frame" where
  "store_match k sat_ra sat_dec fr =
     (let inputs1 = (if header_line_shown (f_inputs fr) = 0
                     then (f_inputs fr)\<lparr>header_line_shown := 1\<rparr> else f_inputs fr);
          ra2 = fmod (sat_ra + PI * 10) (PI + PI);
          outputs0 = f_outputs fr
      in fr\<lparr>f_inputs := inputs1,
            f_outputs := outputs0\<lparr>ra := (ra outputs0)[k := ra2 * 180 / PI],
                                   dec := (dec outputs0)[k := sat_dec * 180 / PI]\<rparr>\<rparr>)"

text \<open>Lines 111 to 177: one iteration of the loop over the epochs.\<close>

definition epoch_body :: "collab \<Rightarrow> nat \<Rightarrow> frame \<Rightarrow> frame" where
  "epoch_body c k fr =
     (case apparent c k fr of ((status, sat_ra, sat_dec, dist_to_satellite), fr1) \<Rightarrow>
        let radius = radius_of sat_ra sat_dec (target_ra (f_inputs fr1)) (target_dec (f_inputs fr1));
            fr2 = fr1\<lparr>f_inputs := (f_inputs fr1)\<lparr>header_line_shown := 1\<rparr>\<rparr>
        in if radius < search_radius (f_inputs fr2)
           then store_match k sat_ra sat_dec fr2
           else fr2)"

subsection \<open>The whole function\<close>

text \<open>Line 110: \<^verbatim>\<open>for (int i = 0; i < 2; ++i)\<close>, from loop index \<open>k\<close> on.\<close>

function epoch_loop :: "collab \<Rightarrow> nat \<Rightarrow> frame \<Rightarrow> frame" where
  "epoch_loop c k fr = (if k < 2 then epoch_loop c (k + 1) (epoch_body c k fr) else fr)"
  by pat_completeness auto
termination
  by (relation "measure (\<lambda>(c, k, fr). 2 - k)") auto

text \<open>
  Lines 102 to 109: the frame on entry to the loop. The target direction of the local
  copy of the inputs is converted to radians in place.
\<close>

definition entry_frame :: "Inputs \<Rightarrow> tle_t \<Rightarrow> frame" where
  "entry_frame inputs tle =
     \<lparr>f_inputs = inputs\<lparr>target_ra := target_ra inputs * (PI / 180),
                          target_dec := target_dec inputs * (PI / 180)\<rparr>,
      f_tle = tle,
      f_outputs = Outputs_init\<rparr>"

definition calc_sat_frame :: "collab \<Rightarrow> Inputs \<Rightarrow> tle_t \<Rightarrow> frame" where
  "calc_sat_frame c inputs tle = epoch_loop c 0 (entry_frame inputs tle)"

text \<open>Line 180: \<^verbatim>\<open>return outputs;\<close>\<close>

definition calc_sat :: "collab \<Rightarrow> Inputs \<Rightarrow> tle_t \<Rightarrow> Outputs" where
  "calc_sat c inputs tle = f_outputs (calc_sat_frame c inputs tle)"


subsection \<open>A call\<close>

text \<open>
  A call as the binding makes it. Both parameters are passed by value: the callee works
  on copies, its frame is gone when it returns, and the caller receives the returned
  value only.
\<close>

record caller =
  c_inputs :: Inputs
  c_tle :: tle_t

definition call_calc_sat :: "collab \<Rightarrow> caller \<Rightarrow> Outputs \<times> caller" where
  "call_calc_sat c s =
     (let fr = calc_sat_frame c (c_inputs s) (c_tle s) in (f_outputs fr, s))"

subsection \<open>The function over its memory\<close>

text \<open>
  Lines 100 to 181 once more, statement by statement, over the memory the call runs in.
  The record \<open>machine\<close> has a cell for every automatic variable of \<^verbatim>\<open>calc_sat\<close>: the two
  parameters, \<^verbatim>\<open>outputs\<close> and the variables declared at lines 111 and 127 to 130. A call
  starts in the memory it finds, \<open>stale\<close>: the parameters are overwritten with copies
  of the arguments, \<^verbatim>\<open>outputs\<close> with its member initialisers (line 102), and every other
  cell keeps what was there, as an uninitialised variable does. The call returns
  \<^verbatim>\<open>outputs\<close> and leaves its memory behind.
\<close>

record machine =
  m_inputs :: Inputs
  m_tle :: tle_t
  m_outputs :: Outputs
  m_observer_loc :: "real list"
  m_is_deep :: int
  m_sat_params :: "real list"
  m_radius :: real
  m_d_ra :: real
  m_d_dec :: real
  m_ra :: real
  m_dec :: real
  m_dist_to_satellite :: real
  m_t_since :: real
  m_pos :: "real list"

text \<open>Lines 135 to 144.\<close>

definition propagate_mem :: "collab \<Rightarrow> machine \<Rightarrow> machine" where
  "propagate_mem c m =
     (if m_is_deep m \<noteq> 0
      then (let m1 = (case SDP4_init c (m_tle m) of
                        (params, tle1) \<Rightarrow> m\<lparr>m_sat_params := params, m_tle := tle1\<rparr>)
            in case SDP4 c (m_t_since m1) (m_tle m1) (m_sat_params m1) of
                 ((status, pos), tle2) \<Rightarrow> m1\<lparr>m_pos := pos, m_tle := tle2\<rparr>)
      else (let m1 = (case SGP4_init c (m_tle m) of
                        (params, tle1) \<Rightarrow> m\<lparr>m_sat_params := params, m_tle := tle1\<rparr>)
            in case SGP4 c (m_t_since m1) (m_tle m1) (m_sat_params m1) of
                 ((status, pos), tle2) \<Rightarrow> m1\<lparr>m_pos := pos, m_tle := tle2\<rparr>))"

text \<open>Lines 164 to 175.\<close>

definition store_match_mem :: "nat \<Rightarrow> machine \<Rightarrow> machine" where
  "store_match_mem k m =
     (let m1 = (if header_line_shown (m_inputs m) = 0
                then m\<lparr>m_inputs := (m_inputs m)\<lparr>header_line_shown := 1\<rparr>\<rparr> else m);
          m2 = m1\<lparr>m_ra := fmod (m_ra m1 + PI * 10) (PI + PI)\<rparr>;
          m3 = m2\<lparr>m_outputs := (m_outputs m2)\<lparr>ra := (ra (m_outputs m2))[k := m_ra m2 * 180 / PI]\<rparr>\<rparr>
      in m3\<lparr>m_outputs := (m_outputs m3)\<lparr>dec := (dec (m_outputs m3))[k := m_dec m3 * 180 / PI]\<rparr>\<rparr>)"

text \<open>Lines 114 to 147.\<close>

definition apparent_mem :: "collab \<Rightarrow> nat \<Rightarrow> machine \<Rightarrow> machine" where
  "apparent_mem c k m =
     (let m1 = (case earth_lat_alt_to_parallax c (lat (m_inputs m) * PI / 180) (ht_in_meters (m_inputs m)) of
                  (rc, rs) \<Rightarrow> m\<lparr>m_inputs := (m_inputs m)\<lparr>rho_cos_phi := rc, rho_sin_phi := rs\<rparr>\<rparr>);
          m2 = m1\<lparr>m_observer_loc :=
                    observer_cartesian_coords c (jd (m_inputs m1) ! k) (lon (m_inputs m1) * PI / 180)
                      (rho_cos_phi (m_inputs m1)) (rho_sin_phi (m_inputs m1))\<rparr>;
          m3 = (case select_ephemeris c (m_tle m2) of
                  (deep, tle1) \<Rightarrow> m2\<lparr>m_is_deep := deep, m_tle := tle1\<rparr>);
          m4 = m3\<lparr>m_t_since := (jd (m_inputs m3) ! k - epoch (m_tle m3)) * 1440\<rparr>;
          m5 = propagate_mem c m4;
          m6 = (case get_satellite_ra_dec_delta c (m_observer_loc m5) (m_pos m5) of
                  (ra0, dec0, delta) \<Rightarrow> m5\<lparr>m_ra := ra0, m_dec := dec0, m_dist_to_satellite := delta\<rparr>)
      in case epoch_of_date_to_j2000 c (jd (m_inputs m6) ! k) (m_ra m6, m_dec m6) of
           (ra1, dec1) \<Rightarrow> m6\<lparr>m_ra := ra1, m_dec := dec1\<rparr>)"

text \<open>Lines 148 to 153.\<close>

definition radius_mem :: "machine \<Rightarrow> machine" where
  "radius_mem m =
     (let m1 = m\<lparr>m_d_ra := m_ra m - target_ra (m_inputs m) + PI * 4\<rparr>;
          m2 = m1\<lparr>m_d_ra := wrap_d_ra (m_d_ra m1)\<rparr>;
          m3 = m2\<lparr>m_d_dec := m_dec m2 - target_dec (m_inputs m2)\<rparr>
      in m3\<lparr>m_radius := sqrt (m_d_ra m3 * m_d_ra m3 + m_d_dec m3 * m_d_dec m3) * 180 / PI\<rparr>)"

text \<open>Lines 111 to 177.\<close>

definition epoch_body_mem :: "collab \<Rightarrow> nat \<Rightarrow> machine \<Rightarrow> machine" where
  "epoch_body_mem c k m =
     (let m1 = radius_mem (apparent_mem c k m);
          m2 = m1\<lparr>m_inputs := (m_inputs m1)\<lparr>header_line_shown := 1\<rparr>\<rparr>
      in if m_radius m2 < search_radius (m_inputs m2) then store_match_mem k m2 else m2)"

text \<open>Line 110.\<close>

function epoch_loop_mem :: "collab \<Rightarrow> nat \<Rightarrow> machine \<Rightarrow> machine" where
  "epoch_loop_mem c k m = (if k < 2 then epoch_loop_mem c (k + 1) (epoch_body_mem c k m) else m)"
  by pat_completeness auto
termination
  by (relation "measure (\<lambda>(c, k, m). 2 - k)") auto

text \<open>Lines 100 to 109 and 180.\<close>

definition calc_sat_mem :: "collab \<Rightarrow> machine \<Rightarrow> Inputs \<Rightarrow> tle_t \<Rightarrow> Outputs \<times> machine" where
  "calc_sat_mem c stale inputs tle =
     (let m0 = stale\<lparr>m_inputs := inputs, m_tle := tle\<rparr>;
          m1 = m0\<lparr>m_outputs := Outputs_init\<rparr>;
          m2 = m1\<lparr>m_inputs := (m_inputs m1)\<lparr>target_ra := target_ra (m_inputs m1) * (PI / 180)\<rparr>\<rparr>;
          m3 = m2\<lparr>m_inputs := (m_inputs m2)\<lparr>target_dec := target_dec (m_inputs m2) * (PI / 180)\<rparr>\<rparr>;
          m4 = epoch_loop_mem c 0 m3
      in (m_outputs m4, m4))"

text \<open>The part of the memory that is the frame of the first model.\<close>

definition frame_of :: "machine \<Rightarrow> frame" where
  "frame_of m = \<lparr>f_inputs = m_inputs m, f_tle = m_tle m, f_outputs = m_outputs m\<rparr>"

subsection \<open>The wrap-around loop in binary64 arithmetic\<close>

text \<open>
  Exact arithmetic cannot tell whether the loop of lines 150 and 151 terminates on the
  machine: there \<^verbatim>\<open>d_ra -= PI + PI\<close> is a rounded subtraction. For this question the
  statements that produce and reduce \<^verbatim>\<open>d_ra\<close> (lines 108 and 148 to 151) are written
  once more over the arithmetic they run in.

  A finite binary64 number is an integer of magnitude below \<open>2\<^sup>5\<^sup>3\<close> times a power of
  two with exponent at least -1074. \<open>b64_round x\<close> is the IEEE 754 result of rounding
  \<open>x\<close> to the nearest such number, ties to the even significand. Overflow to infinity
  is not represented; the values considered below stay far from it.
\<close>

definition round_half_even :: "real \<Rightarrow> int" where
  "round_half_even x =
     (let f = \<lfloor>x\<rfloor>
      in if x - of_int f < 1 / 2 then f
         else if 1 / 2 < x - of_int f then f + 1
         else if even f then f else f + 1)"

definition b64_exponent :: "real \<Rightarrow> int" where
  "b64_exponent x = max (\<lfloor>log 2 \<bar>x\<bar>\<rfloor> - 52) (- 1074)"

definition b64_round :: "real \<Rightarrow> real" where
  "b64_round x =
     (if x = 0 then 0
      else of_int (round_half_even (x / 2 powr of_int (b64_exponent x))) * 2 powr of_int (b64_exponent x))"

text \<open>
  An arithmetic: the four operations on \<^verbatim>\<open>double\<close> and the value of the macro \<^verbatim>\<open>PI\<close>.
  \<open>exact\<close> is the arithmetic of the rest of this theory, \<open>b64\<close> rounds every result
  and converts the literal of \<^verbatim>\<open>PI\<close> as a compiler does.
\<close>

record arith =
  a_add :: "real \<Rightarrow> real \<Rightarrow> real"
  a_sub :: "real \<Rightarrow> real \<Rightarrow> real"
  a_mul :: "real \<Rightarrow> real \<Rightarrow> real"
  a_div :: "real \<Rightarrow> real \<Rightarrow> real"
  a_pi :: real

definition exact :: arith where
  "exact = \<lparr>a_add = (+), a_sub = (-), a_mul = (*), a_div = (/), a_pi = PI\<rparr>"

definition b64 :: arith where
  "b64 = \<lparr>a_add = (\<lambda>x y. b64_round (x + y)), a_sub = (\<lambda>x y. b64_round (x - y)),
          a_mul = (\<lambda>x y. b64_round (x * y)), a_div = (\<lambda>x y. b64_round (x / y)),
          a_pi = b64_round PI\<rparr>"

text \<open>
  Lines 150 and 151, with no assumption that the loop ends: a run that never leaves the
  loop has the value \<open>None\<close>.
\<close>

partial_function (option) wrap_while :: "arith \<Rightarrow> real \<Rightarrow> real option" where
  "wrap_while ar d_ra =
     (if d_ra > a_pi ar
      then wrap_while ar (a_sub ar d_ra (a_add ar (a_pi ar) (a_pi ar)))
      else Some d_ra)"

text \<open>
  Line 108 (\<^verbatim>\<open>inputs.target_ra *= PI / 180.\<close>), line 148 and the loop: the reduced
  difference in right ascension for an apparent right ascension in radians and a target
  right ascension in degrees.
\<close>

definition d_ra_in :: "arith \<Rightarrow> real \<Rightarrow> real \<Rightarrow> real option" where
  "d_ra_in ar sat_ra target_deg =
     (let tgt_ra = a_mul ar target_deg (a_div ar (a_pi ar) 180);
          d_ra = a_add ar (a_sub ar sat_ra tgt_ra) (a_mul ar (a_pi ar) 4)
      in wrap_while ar d_ra)"

section \<open>Notions for the properties\<close>

subsection \<open>Reading a run\<close>

text \<open>
  The notions the properties are stated with: the result slot of an epoch, the frame
  at the start of iteration \<open>k\<close>, the apparent position that iteration computes and its
  offset from the target, which is the value of the local variable \<^verbatim>\<open>radius\<close>.
\<close>

definition slot :: "Outputs \<Rightarrow> nat \<Rightarrow> real \<times> real" where
  "slot out k = (ra out ! k, dec out ! k)"

primrec frame_at :: "collab \<Rightarrow> Inputs \<Rightarrow> tle_t \<Rightarrow> nat \<Rightarrow> frame" where
  "frame_at c inputs tle 0 = entry_frame inputs tle"
| "frame_at c inputs tle (Suc k) = epoch_body c k (frame_at c inputs tle k)"

definition sat_position :: "collab \<Rightarrow> Inputs \<Rightarrow> tle_t \<Rightarrow> nat \<Rightarrow> real \<times> real" where
  "sat_position c inputs tle k =
     (case apparent c k (frame_at c inputs tle k) of
        ((status, sat_ra, sat_dec, dist_to_satellite), fr1) \<Rightarrow> (sat_ra, sat_dec))"

definition offset_deg :: "collab \<Rightarrow> Inputs \<Rightarrow> tle_t \<Rightarrow> nat \<Rightarrow> real" where
  "offset_deg c inputs tle k =
     (case sat_position c inputs tle k of
        (sat_ra, sat_dec) \<Rightarrow>
          radius_of sat_ra sat_dec (target_ra inputs * (PI / 180)) (target_dec inputs * (PI / 180)))"

text \<open>The status the propagator returns in iteration \<open>k\<close> of a run.\<close>

definition propagation_status :: "collab \<Rightarrow> Inputs \<Rightarrow> tle_t \<Rightarrow> nat \<Rightarrow> int" where
  "propagation_status c inputs tle k =
     (case apparent c k (frame_at c inputs tle k) of
        ((status, sat_ra, sat_dec, dist_to_satellite), fr1) \<Rightarrow> status)"

text \<open>The returned value with the two epochs exchanged.\<close>

definition swap_outputs :: "Outputs \<Rightarrow> Outputs" where
  "swap_outputs out = \<lparr>ra = [ra out ! 1, ra out ! 0], dec = [dec out ! 1, dec out ! 0]\<rparr>"

text \<open>
  What a frame holds apart from the members of the inputs that \<^verbatim>\<open>calc_sat\<close> overwrites
  before reading, or never reads (\<^verbatim>\<open>rho_sin_phi\<close>, \<^verbatim>\<open>rho_cos_phi\<close>, \<^verbatim>\<open>i\<close>,
  \<^verbatim>\<open>header_line_shown\<close>).
\<close>

definition core :: "frame \<Rightarrow> (real \<times> real \<times> real \<times> real list \<times> real \<times> real \<times> real) \<times> tle_t \<times> Outputs" where
  "core fr =
     ((lat (f_inputs fr), lon (f_inputs fr), ht_in_meters (f_inputs fr), jd (f_inputs fr),
       search_radius (f_inputs fr), target_ra (f_inputs fr), target_dec (f_inputs fr)),
      f_tle fr, f_outputs fr)"

text \<open>
  The offset as the specification words it: the Euclidean length of the pair of
  differences, in radians, converted to degrees.
\<close>

definition planar_offset_deg :: "real \<Rightarrow> real \<Rightarrow> real" where
  "planar_offset_deg d_ra d_dec = sqrt (d_ra\<^sup>2 + d_dec\<^sup>2) * (180 / PI)"

subsection \<open>Contracts of the library\<close>

text \<open>
  The library routines that receive \<^verbatim>\<open>&tle\<close> only read the element set (the table of
  external interfaces lists no output but the position).
\<close>

definition tle_const :: "collab \<Rightarrow> bool" where
  "tle_const c =
     (\<forall>t t_since params.
        snd (select_ephemeris c t) = t \<and>
        snd (SDP4_init c t) = t \<and> snd (SDP4 c t_since t params) = t \<and>
        snd (SGP4_init c t) = t \<and> snd (SGP4 c t_since t params) = t)"

text \<open>The same library with propagators that always report success.\<close>

definition drop_status :: "collab \<Rightarrow> collab" where
  "drop_status c =
     c\<lparr>SDP4 := (\<lambda>t_since t params. ((0, snd (fst (SDP4 c t_since t params))), snd (SDP4 c t_since t params))),
       SGP4 := (\<lambda>t_since t params. ((0, snd (fst (SGP4 c t_since t params))), snd (SGP4 c t_since t params)))\<rparr>"

subsection \<open>Instances\<close>

text \<open>
  The member initialisers of \<^verbatim>\<open>struct Inputs\<close>; the members without an initialiser are
  zero, as value initialisation leaves them.
\<close>

definition Inputs_default :: Inputs where
  "Inputs_default =
     \<lparr>lat = - 30.244633333333333, lon = - 70.74941666666666, ht_in_meters = 2662.75,
      jd = [2452623.5, 2452623.6], search_radius = 10, target_ra = 90, target_dec = 30,
      rho_sin_phi = 0, rho_cos_phi = 0, inputs_i = 0, header_line_shown = 0\<rparr>"

definition tle_zero :: tle_t where
  "tle_zero =
     \<lparr>epoch = 0, xndt2o = 0, xndd6o = 0, bstar = 0, xincl = 0, xnodeo = 0, eo = 0,
      omegao = 0, xmo = 0, xno = 0, norad_number = 0, bulletin_number = 0,
      revolution_number = 0, classification = CHR ''U'', ephemeris_type = CHR ''0'',
      intl_desig = []\<rparr>"

text \<open>
  A stand-in for the library: the satellite is seen in direction \<open>dir jd\<close> at Julian date
  \<open>jd\<close>, both propagators return the status \<open>st\<close>, and no routine writes to the element
  set.
\<close>

definition sky_collab :: "int \<Rightarrow> (real \<Rightarrow> real \<times> real) \<Rightarrow> collab" where
  "sky_collab st dir =
     \<lparr>earth_lat_alt_to_parallax = (\<lambda>lat_rad ht. (1, 0)),
      observer_cartesian_coords = (\<lambda>jd_k lon_rad rc rs. [0, 0, 0]),
      select_ephemeris = (\<lambda>t. (0, t)),
      SDP4_init = (\<lambda>t. ([], t)),
      SDP4 = (\<lambda>t_since t params. ((st, [0, 0, 0]), t)),
      SGP4_init = (\<lambda>t. ([], t)),
      SGP4 = (\<lambda>t_since t params. ((st, [0, 0, 0]), t)),
      get_satellite_ra_dec_delta = (\<lambda>obs pos. (0, 0, 1)),
      epoch_of_date_to_j2000 = (\<lambda>jd_k rd. dir jd_k)\<rparr>"

text \<open>The default inputs with the target at right ascension -1260 degrees, declination 0.\<close>

definition Inputs_far :: Inputs where
  "Inputs_far = Inputs_default\<lparr>target_ra := - 1260, target_dec := 0\<rparr>"

text \<open>
  Two more stand-ins. Under \<open>two_skies\<close> the satellite is on the default target at the
  first default epoch and 90 degrees of right ascension away at any other time. The
  library \<open>scribbler\<close> writes through the pointer it is given: \<^verbatim>\<open>SGP4_init\<close> advances
  the epoch of the element set by one.
\<close>

definition two_skies :: "real \<Rightarrow> real \<times> real" where
  "two_skies jd_k = (if jd_k = 2452623.5 then (PI / 2, PI / 6) else (PI, 0))"

definition scribbler :: collab where
  "scribbler = (sky_collab 0 two_skies)\<lparr>SGP4_init := (\<lambda>t. ([], t\<lparr>epoch := epoch t + 1\<rparr>))\<rparr>"

section \<open>Basic facts\<close>

subsection \<open>Frames and slots\<close>

declare wrap_d_ra.simps [simp del] epoch_loop.simps [simp del]

lemma PI_pos: "0 < PI"
  by (simp add: PI_def)

lemma epoch_loop_unroll: "epoch_loop c 0 fr = epoch_body c 1 (epoch_body c 0 fr)"
  by (simp add: epoch_loop.simps [of c 0] epoch_loop.simps [of c "Suc 0"]
      epoch_loop.simps [of c "Suc (Suc 0)"])

lemma calc_sat_frame_at: "calc_sat_frame c inputs tle = frame_at c inputs tle 2"
  by (simp add: calc_sat_frame_def epoch_loop_unroll numeral_2_eq_2)

text \<open>What the library calls of an iteration leave alone.\<close>

lemma apparent_frame:
  "f_outputs (snd (apparent c k fr)) = f_outputs fr"
  "target_ra (f_inputs (snd (apparent c k fr))) = target_ra (f_inputs fr)"
  "target_dec (f_inputs (snd (apparent c k fr))) = target_dec (f_inputs fr)"
  "search_radius (f_inputs (snd (apparent c k fr))) = search_radius (f_inputs fr)"
  "jd (f_inputs (snd (apparent c k fr))) = jd (f_inputs fr)"
  "lat (f_inputs (snd (apparent c k fr))) = lat (f_inputs fr)"
  "lon (f_inputs (snd (apparent c k fr))) = lon (f_inputs fr)"
  "ht_in_meters (f_inputs (snd (apparent c k fr))) = ht_in_meters (f_inputs fr)"
  by (simp_all add: apparent_def Let_def split: prod.splits)

lemma apparent_cases:
  obtains status sat_ra sat_dec dist_to_satellite fr1
  where "apparent c k fr = ((status, sat_ra, sat_dec, dist_to_satellite), fr1)"
  by (metis surj_pair)

text \<open>The result under construction after one iteration.\<close>

lemma epoch_body_outputs:
  "f_outputs (epoch_body c k fr) =
     (case fst (apparent c k fr) of
        (status, sat_ra, sat_dec, dist_to_satellite) \<Rightarrow>
          if radius_of sat_ra sat_dec (target_ra (f_inputs fr)) (target_dec (f_inputs fr))
               < search_radius (f_inputs fr)
          then (f_outputs fr)\<lparr>ra := (ra (f_outputs fr))[k := fmod (sat_ra + PI * 10) (PI + PI) * 180 / PI],
                               dec := (dec (f_outputs fr))[k := sat_dec * 180 / PI]\<rparr>
          else f_outputs fr)"
proof -
  obtain status sat_ra sat_dec dist_to_satellite fr1
    where ap: "apparent c k fr = ((status, sat_ra, sat_dec, dist_to_satellite), fr1)"
    by (rule apparent_cases)
  have fr1: "fr1 = snd (apparent c k fr)"
    by (simp add: ap)
  show ?thesis
    by (simp add: epoch_body_def ap Let_def store_match_def)
       (simp add: fr1 apparent_frame)
qed

lemma epoch_body_inputs:
  "target_ra (f_inputs (epoch_body c k fr)) = target_ra (f_inputs fr)"
  "target_dec (f_inputs (epoch_body c k fr)) = target_dec (f_inputs fr)"
  "search_radius (f_inputs (epoch_body c k fr)) = search_radius (f_inputs fr)"
  "jd (f_inputs (epoch_body c k fr)) = jd (f_inputs fr)"
  "lat (f_inputs (epoch_body c k fr)) = lat (f_inputs fr)"
  "lon (f_inputs (epoch_body c k fr)) = lon (f_inputs fr)"
  "ht_in_meters (f_inputs (epoch_body c k fr)) = ht_in_meters (f_inputs fr)"
proof -
  obtain status sat_ra sat_dec dist_to_satellite fr1
    where ap: "apparent c k fr = ((status, sat_ra, sat_dec, dist_to_satellite), fr1)"
    by (rule apparent_cases)
  have fr1: "fr1 = snd (apparent c k fr)"
    by (simp add: ap)
  show "target_ra (f_inputs (epoch_body c k fr)) = target_ra (f_inputs fr)"
    "target_dec (f_inputs (epoch_body c k fr)) = target_dec (f_inputs fr)"
    "search_radius (f_inputs (epoch_body c k fr)) = search_radius (f_inputs fr)"
    "jd (f_inputs (epoch_body c k fr)) = jd (f_inputs fr)"
    "lat (f_inputs (epoch_body c k fr)) = lat (f_inputs fr)"
    "lon (f_inputs (epoch_body c k fr)) = lon (f_inputs fr)"
    "ht_in_meters (f_inputs (epoch_body c k fr)) = ht_in_meters (f_inputs fr)"
    by (simp_all add: epoch_body_def ap Let_def store_match_def)
       (simp_all add: fr1 apparent_frame)
qed

lemma frame_at_inputs:
  "target_ra (f_inputs (frame_at c inputs tle k)) = target_ra inputs * (PI / 180)"
  "target_dec (f_inputs (frame_at c inputs tle k)) = target_dec inputs * (PI / 180)"
  "search_radius (f_inputs (frame_at c inputs tle k)) = search_radius inputs"
  "jd (f_inputs (frame_at c inputs tle k)) = jd inputs"
  "lat (f_inputs (frame_at c inputs tle k)) = lat inputs"
  "lon (f_inputs (frame_at c inputs tle k)) = lon inputs"
  "ht_in_meters (f_inputs (frame_at c inputs tle k)) = ht_in_meters inputs"
  by (induction k; simp add: entry_frame_def epoch_body_inputs)+

lemma frame_at_Suc_outputs:
  "f_outputs (frame_at c inputs tle (Suc k)) =
     (case sat_position c inputs tle k of
        (sat_ra, sat_dec) \<Rightarrow>
          if offset_deg c inputs tle k < search_radius inputs
          then (f_outputs (frame_at c inputs tle k))
                 \<lparr>ra := (ra (f_outputs (frame_at c inputs tle k)))
                          [k := fmod (sat_ra + PI * 10) (PI + PI) * 180 / PI],
                  dec := (dec (f_outputs (frame_at c inputs tle k)))[k := sat_dec * 180 / PI]\<rparr>
          else f_outputs (frame_at c inputs tle k))"
  by (simp add: epoch_body_outputs offset_deg_def sat_position_def frame_at_inputs
      split: prod.splits)

lemma frame_at_lengths:
  "length (ra (f_outputs (frame_at c inputs tle k))) = 2 \<and>
   length (dec (f_outputs (frame_at c inputs tle k))) = 2"
proof (induction k)
  case 0
  show ?case
    by (simp add: entry_frame_def Outputs_init_def)
next
  case (Suc k)
  then show ?case
    by (simp add: frame_at_Suc_outputs split: prod.splits del: frame_at.simps)
qed

lemma frame_at_0_outputs: "f_outputs (frame_at c inputs tle 0) = Outputs_init"
  by (simp add: entry_frame_def)

text \<open>The slot of each epoch in the returned value.\<close>

lemma slot_of_run:
  assumes "k < 2"
  shows "slot (calc_sat c inputs tle) k =
     (case sat_position c inputs tle k of
        (sat_ra, sat_dec) \<Rightarrow>
          if offset_deg c inputs tle k < search_radius inputs
          then (fmod (sat_ra + PI * 10) (PI + PI) * 180 / PI, sat_dec * 180 / PI)
          else (0, 0))"
proof -
  from assms consider "k = 0" | "k = Suc 0"
    by linarith
  then show ?thesis
  proof cases
    case 1
    show ?thesis
      unfolding 1 calc_sat_def calc_sat_frame_at numeral_2_eq_2 slot_def
      using frame_at_lengths [of c inputs tle "Suc 0"] frame_at_lengths [of c inputs tle 0]
      by (simp add: frame_at_Suc_outputs [of c inputs tle "Suc 0"]
          frame_at_Suc_outputs [of c inputs tle 0] frame_at_0_outputs Outputs_init_def
          split: prod.splits del: frame_at.simps)
  next
    case 2
    show ?thesis
      unfolding 2 calc_sat_def calc_sat_frame_at numeral_2_eq_2 slot_def
      using frame_at_lengths [of c inputs tle "Suc 0"] frame_at_lengths [of c inputs tle 0]
      by (simp add: frame_at_Suc_outputs [of c inputs tle "Suc 0"]
          frame_at_Suc_outputs [of c inputs tle 0] frame_at_0_outputs Outputs_init_def
          split: prod.splits del: frame_at.simps)
  qed
qed

text \<open>The stand-in library, evaluated.\<close>

lemma apparent_sky:
  "apparent (sky_collab st dir) k fr =
     ((st, fst (dir (jd (f_inputs fr) ! k)), snd (dir (jd (f_inputs fr) ! k)), 1),
      fr\<lparr>f_inputs := (f_inputs fr)\<lparr>rho_cos_phi := 1, rho_sin_phi := 0\<rparr>\<rparr>)"
  by (simp add: apparent_def sky_collab_def propagate_def Let_def split: prod.splits)

lemma sat_position_sky:
  "sat_position (sky_collab st dir) inputs tle k = dir (jd inputs ! k)"
  by (simp add: sat_position_def apparent_sky frame_at_inputs)

lemma wrap_4pi: "wrap_d_ra (4 * PI) = 0"
  by (simp add: PI_def wrap_d_ra.simps)

text \<open>The returned value is determined by its two slots.\<close>

lemma outputs_two:
  assumes "length (ra out) = 2" "length (dec out) = 2"
  shows "out = \<lparr>ra = [ra out ! 0, ra out ! 1], dec = [dec out ! 0, dec out ! 1]\<rparr>"
proof -
  have two: "xs = [xs ! 0, xs ! 1]" if "length xs = 2" for xs :: "real list"
    using that by (cases xs; cases "tl xs") auto
  show ?thesis
    using two [OF assms(1)] two [OF assms(2)] by (cases out) simp
qed

lemma calc_sat_lengths:
  "length (ra (calc_sat c inputs tle)) = 2" "length (dec (calc_sat c inputs tle)) = 2"
  using frame_at_lengths [of c inputs tle 2] by (simp_all add: calc_sat_def calc_sat_frame_at)

lemma run_by_slots:
  "calc_sat c inputs tle =
     \<lparr>ra = [fst (slot (calc_sat c inputs tle) 0), fst (slot (calc_sat c inputs tle) 1)],
      dec = [snd (slot (calc_sat c inputs tle) 0), snd (slot (calc_sat c inputs tle) 1)]\<rparr>"
  using outputs_two [OF calc_sat_lengths, of c inputs tle] by (simp add: slot_def)

subsection \<open>The wrap-around loop, the offset and the conversions\<close>

lemma wrap_d_ra_le: "wrap_d_ra d \<le> PI"
proof (induction d rule: wrap_d_ra.induct)
  case (1 d)
  then show ?case
    by (cases "PI < d") (simp_all add: wrap_d_ra.simps [of d])
qed

lemma wrap_d_ra_steps: "\<exists>n::nat. wrap_d_ra d = d - of_nat n * (PI + PI)"
proof (induction d rule: wrap_d_ra.induct)
  case (1 d)
  show ?case
  proof (cases "PI < d")
    case True
    with 1 obtain n :: nat where "wrap_d_ra (d - (PI + PI)) = d - (PI + PI) - of_nat n * (PI + PI)"
      by blast
    then have "wrap_d_ra d = d - of_nat (Suc n) * (PI + PI)"
      using True by (simp add: wrap_d_ra.simps [of d] algebra_simps)
    then show ?thesis
      by blast
  next
    case False
    then have "wrap_d_ra d = d - of_nat 0 * (PI + PI)"
      by (simp add: wrap_d_ra.simps [of d])
    then show ?thesis
      by blast
  qed
qed

lemma radius_of_nonneg: "0 \<le> radius_of sat_ra sat_dec tgt_ra tgt_dec"
  using PI_pos by (simp add: radius_of_def Let_def)

lemma offset_deg_nonneg: "0 \<le> offset_deg c inputs tle k"
  by (simp add: offset_deg_def radius_of_nonneg split: prod.splits)

lemma radius_of_same_dec:
  "radius_of sat_ra sat_dec tgt_ra sat_dec = \<bar>d_ra_of sat_ra tgt_ra\<bar> * 180 / PI"
  by (simp add: radius_of_def Let_def)

lemma offset_on_target:
  "offset_deg (sky_collab st (\<lambda>jd_k. (PI / 2, PI / 6))) (Inputs_default\<lparr>search_radius := r\<rparr>) tle_zero k = 0"
  by (simp add: offset_deg_def sat_position_sky radius_of_def d_ra_of_def Inputs_default_def
      wrap_4pi)

text \<open>The range of \<^verbatim>\<open>fmod\<close> and of the conversions to degrees.\<close>

lemma fmod_range:
  assumes "0 < y" "0 \<le> x"
  shows "0 \<le> fmod x y" "fmod x y < y"
proof -
  have q: "0 \<le> x / y"
    using assms by simp
  then have nq: "\<not> x / y < 0"
    by simp
  have eq: "fmod x y = y * (x / y - of_int \<lfloor>x / y\<rfloor>)"
    using assms(1) by (simp add: fmod_def trunc_def nq algebra_simps)
  have "0 \<le> x / y - of_int \<lfloor>x / y\<rfloor>" "x / y - of_int \<lfloor>x / y\<rfloor> < 1"
    by linarith+
  then show "0 \<le> fmod x y" "fmod x y < y"
    unfolding eq using assms(1) by (simp_all add: mult_less_cancel_left2)
qed

lemma ra_degrees_range:
  assumes "- (PI * 10) \<le> sat_ra"
  shows "0 \<le> fmod (sat_ra + PI * 10) (PI + PI) * 180 / PI"
    "fmod (sat_ra + PI * 10) (PI + PI) * 180 / PI < 360"
proof -
  have y: "0 < PI + PI"
    using PI_pos by simp
  have x: "0 \<le> sat_ra + PI * 10"
    using assms by simp
  show "0 \<le> fmod (sat_ra + PI * 10) (PI + PI) * 180 / PI"
    using fmod_range(1) [OF y x] PI_pos by simp
  have "fmod (sat_ra + PI * 10) (PI + PI) * 180 < (PI + PI) * 180"
    using fmod_range(2) [OF y x] by simp
  then show "fmod (sat_ra + PI * 10) (PI + PI) * 180 / PI < 360"
    using PI_pos by (simp add: field_simps)
qed

lemma dec_degrees_range:
  assumes "- (PI / 2) \<le> sat_dec" "sat_dec \<le> PI / 2"
  shows "- 90 \<le> sat_dec * 180 / PI" "sat_dec * 180 / PI \<le> 90"
  using assms PI_pos by (simp_all add: field_simps)

lemma offset_far:
  "offset_deg (sky_collab 0 (\<lambda>jd_k. (- (11 * PI), 0))) Inputs_far tle_zero 0 = 0"
  by (simp add: offset_deg_def sat_position_sky radius_of_def d_ra_of_def Inputs_far_def
      Inputs_default_def wrap_d_ra.simps PI_def)

subsection \<open>What a run depends on\<close>

text \<open>Frames that agree on their core stay so.\<close>

lemma apparent_core:
  assumes "core fr = core fr'"
  shows "fst (apparent c k fr) = fst (apparent c k fr')"
    and "core (snd (apparent c k fr)) = core (snd (apparent c k fr'))"
  using assms by (simp_all add: core_def apparent_def Let_def split: prod.splits)

lemma epoch_body_core:
  assumes "core fr = core fr'"
  shows "core (epoch_body c k fr) = core (epoch_body c k fr')"
proof -
  obtain status sat_ra sat_dec dist_to_satellite fr1
    where ap: "apparent c k fr = ((status, sat_ra, sat_dec, dist_to_satellite), fr1)"
    by (rule apparent_cases)
  obtain status' sat_ra' sat_dec' dist_to_satellite' fr1'
    where ap': "apparent c k fr' = ((status', sat_ra', sat_dec', dist_to_satellite'), fr1')"
    by (rule apparent_cases)
  have res: "status' = status" "sat_ra' = sat_ra" "sat_dec' = sat_dec"
    using apparent_core(1) [OF assms, of c k] by (simp_all add: ap ap')
  have fr: "core fr1 = core fr1'"
    using apparent_core(2) [OF assms, of c k] by (simp add: ap ap')
  show ?thesis
    using fr by (simp add: epoch_body_def ap ap' res Let_def store_match_def core_def)
qed

lemma epoch_loop_core:
  assumes "core fr = core fr'"
  shows "core (epoch_loop c 0 fr) = core (epoch_loop c 0 fr')"
  unfolding epoch_loop_unroll by (intro epoch_body_core assms)

lemma calc_sat_core:
  assumes "core (entry_frame inputs tle) = core (entry_frame inputs' tle')"
  shows "calc_sat c inputs tle = calc_sat c inputs' tle'"
  using epoch_loop_core [OF assms, of c] by (simp add: calc_sat_def calc_sat_frame_def core_def)

text \<open>Routines that only read the element set.\<close>

lemma tle_constD:
  assumes "tle_const c"
  shows "snd (select_ephemeris c t) = t" "snd (SDP4_init c t) = t" "snd (SDP4 c t_since t params) = t"
    "snd (SGP4_init c t) = t" "snd (SGP4 c t_since t params) = t"
  using assms unfolding tle_const_def by blast+

lemma propagate_const:
  assumes "tle_const c"
  shows "snd (propagate c is_deep t_since t) = t"
  using tle_constD [OF assms] by (simp add: propagate_def case_prod_beta)

lemma apparent_const:
  assumes "tle_const c"
  shows "f_tle (snd (apparent c k fr)) = f_tle fr"
  using tle_constD(1) [OF assms] propagate_const [OF assms]
  by (simp add: apparent_def Let_def case_prod_beta)

lemma epoch_body_tle:
  "f_tle (epoch_body c k fr) = f_tle (snd (apparent c k fr))"
proof -
  obtain status sat_ra sat_dec dist_to_satellite fr1
    where ap: "apparent c k fr = ((status, sat_ra, sat_dec, dist_to_satellite), fr1)"
    by (rule apparent_cases)
  show ?thesis
    by (simp add: epoch_body_def ap Let_def store_match_def)
qed

lemma frame_at_tle:
  assumes "tle_const c"
  shows "f_tle (frame_at c inputs tle k) = tle"
  by (induction k) (simp_all add: entry_frame_def epoch_body_tle apparent_const [OF assms])

text \<open>The apparent position depends on the frame through the site, the epoch and the
  element set only.\<close>

lemma apparent_position_cong:
  assumes "lat (f_inputs fr) = lat (f_inputs fr')" "lon (f_inputs fr) = lon (f_inputs fr')"
    "ht_in_meters (f_inputs fr) = ht_in_meters (f_inputs fr')"
    "jd (f_inputs fr) ! k = jd (f_inputs fr') ! k'" "f_tle fr = f_tle fr'"
  shows "fst (apparent c k fr) = fst (apparent c k' fr')"
  using assms by (simp add: apparent_def Let_def case_prod_beta)

lemma sat_position_cong:
  assumes "tle_const c"
    and "lat inputs = lat inputs'" "lon inputs = lon inputs'"
    and "ht_in_meters inputs = ht_in_meters inputs'"
    and "jd inputs ! k = jd inputs' ! k'"
  shows "sat_position c inputs tle k = sat_position c inputs' tle k'"
proof -
  have "fst (apparent c k (frame_at c inputs tle k)) = fst (apparent c k' (frame_at c inputs' tle k'))"
    by (rule apparent_position_cong) (simp_all add: frame_at_inputs frame_at_tle [OF assms(1)] assms)
  then show ?thesis
    by (simp add: sat_position_def case_prod_beta)
qed

lemma slot_cong:
  assumes "tle_const c" "k < 2" "k' < 2"
    and "lat inputs = lat inputs'" "lon inputs = lon inputs'"
    and "ht_in_meters inputs = ht_in_meters inputs'"
    and "jd inputs ! k = jd inputs' ! k'"
    and "target_ra inputs = target_ra inputs'" "target_dec inputs = target_dec inputs'"
    and "search_radius inputs = search_radius inputs'"
  shows "slot (calc_sat c inputs tle) k = slot (calc_sat c inputs' tle) k'"
proof -
  have pos: "sat_position c inputs tle k = sat_position c inputs' tle k'"
    by (rule sat_position_cong) (rule assms)+
  have off: "offset_deg c inputs tle k = offset_deg c inputs' tle k'"
    by (simp add: offset_deg_def pos assms(8,9))
  show ?thesis
    unfolding slot_of_run [OF assms(2)] slot_of_run [OF assms(3)] pos off assms(10) ..
qed

lemma tle_const_sky: "tle_const (sky_collab st dir)"
  by (simp add: tle_const_def sky_collab_def)

lemma calc_sat_two_skies:
  "calc_sat (sky_collab st two_skies) Inputs_default tle_zero = \<lparr>ra = [90, 0], dec = [30, 0]\<rparr>"
proof -
  have sr: "search_radius Inputs_default = 10"
    by (simp add: Inputs_default_def)
  have off0: "offset_deg (sky_collab st two_skies) Inputs_default tle_zero 0 = 0"
    by (simp add: offset_deg_def sat_position_sky radius_of_def d_ra_of_def Inputs_default_def
        two_skies_def wrap_4pi)
  have d1: "d_ra_of PI (90 * (PI / 180)) = PI / 2"
    by (simp add: d_ra_of_def PI_def wrap_d_ra.simps)
  have "PI / 2 \<le> sqrt (PI / 2 * (PI / 2) + (0 - 30 * (PI / 180)) * (0 - 30 * (PI / 180)))"
    by (rule real_le_rsqrt) (simp add: power2_eq_square)
  then have "90 \<le> sqrt (PI / 2 * (PI / 2) + (0 - 30 * (PI / 180)) * (0 - 30 * (PI / 180))) * 180 / PI"
    using PI_pos by (simp add: field_simps)
  then have "90 \<le> radius_of PI 0 (90 * (PI / 180)) (30 * (PI / 180))"
    unfolding radius_of_def Let_def d1 .
  then have off1: "\<not> offset_deg (sky_collab st two_skies) Inputs_default tle_zero 1 < 10"
    by (simp add: offset_deg_def sat_position_sky Inputs_default_def two_skies_def)
  have s0: "slot (calc_sat (sky_collab st two_skies) Inputs_default tle_zero) 0
            = (fmod (PI / 2 + PI * 10) (PI + PI) * 180 / PI, PI / 6 * 180 / PI)"
    using slot_of_run [of 0 "sky_collab st two_skies" Inputs_default tle_zero]
    unfolding sat_position_sky off0 sr by (simp add: two_skies_def Inputs_default_def)
  have s0': "slot (calc_sat (sky_collab st two_skies) Inputs_default tle_zero) 0 = (90, 30)"
    unfolding s0 by (simp add: fmod_def trunc_def PI_def)
  have s1: "slot (calc_sat (sky_collab st two_skies) Inputs_default tle_zero) 1 = (0, 0)"
    using slot_of_run [of 1 "sky_collab st two_skies" Inputs_default tle_zero] off1
    unfolding sr by (simp split: prod.splits)
  show ?thesis
    using run_by_slots [of "sky_collab st two_skies" Inputs_default tle_zero] s0' s1
    by simp
qed

text \<open>The status of the propagators.\<close>

lemma propagate_drop_status:
  "propagate (drop_status c) is_deep t_since t
     = ((0, snd (fst (propagate c is_deep t_since t))), snd (propagate c is_deep t_since t))"
  by (simp add: propagate_def drop_status_def case_prod_beta)

lemma apparent_drop_status:
  "snd (fst (apparent (drop_status c) k fr)) = snd (fst (apparent c k fr))"
  "snd (apparent (drop_status c) k fr) = snd (apparent c k fr)"
  by (simp_all add: apparent_def Let_def case_prod_beta propagate_drop_status)
     (simp_all add: drop_status_def)

lemma epoch_body_drop_status: "epoch_body (drop_status c) k fr = epoch_body c k fr"
proof -
  obtain status sat_ra sat_dec dist_to_satellite fr1
    where ap: "apparent c k fr = ((status, sat_ra, sat_dec, dist_to_satellite), fr1)"
    by (rule apparent_cases)
  obtain status' sat_ra' sat_dec' dist_to_satellite' fr1'
    where ap': "apparent (drop_status c) k fr = ((status', sat_ra', sat_dec', dist_to_satellite'), fr1')"
    by (rule apparent_cases)
  have "sat_ra' = sat_ra" "sat_dec' = sat_dec" "fr1' = fr1"
    using apparent_drop_status [of c k fr] by (simp_all add: ap ap')
  then show ?thesis
    by (simp add: epoch_body_def ap ap')
qed

lemma propagation_status_sky:
  "propagation_status (sky_collab st dir) inputs tle k = st"
  by (simp add: propagation_status_def apparent_sky)

lemma apparent_scribbler:
  "f_tle (snd (apparent scribbler k fr)) = (f_tle fr)\<lparr>epoch := epoch (f_tle fr) + 1\<rparr>"
  by (simp add: apparent_def Let_def case_prod_beta scribbler_def sky_collab_def propagate_def)

lemma scribbler_local_tle:
  "epoch (f_tle (calc_sat_frame scribbler Inputs_default tle_zero)) = 2"
  by (simp add: calc_sat_frame_def epoch_loop_unroll epoch_body_tle apparent_scribbler
      entry_frame_def tle_zero_def)

subsection \<open>Rounding to binary64\<close>

lemma round_half_even_error: "\<bar>of_int (round_half_even x) - x\<bar> \<le> 1 / 2"
  unfolding round_half_even_def Let_def by (auto; linarith)

lemma round_half_even_unique:
  assumes "\<bar>x - of_int n\<bar> < 1 / 2"
  shows "round_half_even x = n"
proof (cases "of_int n \<le> x")
  case True
  then have "\<lfloor>x\<rfloor> = n"
    using assms by (intro floor_unique) linarith+
  then show ?thesis
    using assms True by (simp add: round_half_even_def Let_def)
next
  case False
  then have "\<lfloor>x\<rfloor> = n - 1"
    using assms by (intro floor_unique) (simp, linarith)+
  then show ?thesis
    using assms False by (simp add: round_half_even_def Let_def)
qed

lemma b64_exponent_eq:
  assumes "2 powr of_int k \<le> \<bar>x\<bar>" "\<bar>x\<bar> < 2 powr of_int (k + 1)" "- 1022 \<le> k"
  shows "b64_exponent x = k - 52"
proof -
  have "0 < \<bar>x\<bar>"
    using assms(1) by (smt (verit) powr_gt_zero)
  then have "\<lfloor>log 2 \<bar>x\<bar>\<rfloor> = k"
    using assms(1,2) by (simp add: floor_log_eq_powr_iff)
  then show ?thesis
    using assms(3) by (simp add: b64_exponent_def)
qed

lemma b64_round_normal:
  assumes "2 powr of_int k \<le> \<bar>x\<bar>" "\<bar>x\<bar> < 2 powr of_int (k + 1)" "- 1022 \<le> k"
    and "\<bar>x / 2 powr of_int (k - 52) - of_int n\<bar> < 1 / 2"
  shows "b64_round x = of_int n * 2 powr of_int (k - 52)"
proof -
  have "x \<noteq> 0"
    using assms(1) by (smt (verit) powr_gt_zero)
  then have "b64_round x
      = of_int (round_half_even (x / 2 powr of_int (k - 52))) * 2 powr of_int (k - 52)"
    unfolding b64_round_def b64_exponent_eq [OF assms(1-3)] by (simp only: if_False)
  then show ?thesis
    unfolding round_half_even_unique [OF assms(4)] .
qed

lemma b64_round_error:
  assumes "\<bar>x\<bar> < 2 ^ 53"
  shows "\<bar>b64_round x - x\<bar> \<le> 1 / 2"
proof (cases "x = 0")
  case True
  then show ?thesis
    by (simp add: b64_round_def)
next
  case False
  define p :: real where "p = 2 powr of_int (b64_exponent x)"
  have "log 2 \<bar>x\<bar> < 53"
    using False assms by (simp add: log_less_iff)
  then have "\<lfloor>log 2 \<bar>x\<bar>\<rfloor> \<le> 52"
    by linarith
  then have "b64_exponent x \<le> 0"
    by (simp add: b64_exponent_def)
  then have "p \<le> 2 powr 0"
    unfolding p_def by (intro powr_mono) simp_all
  then have p1: "p \<le> 1"
    by simp
  have p0: "0 < p"
    by (simp add: p_def)
  have "b64_round x - x = p * (of_int (round_half_even (x / p)) - x / p)"
    using False p0 by (simp add: b64_round_def p_def algebra_simps)
  then have "\<bar>b64_round x - x\<bar> = p * \<bar>of_int (round_half_even (x / p)) - x / p\<bar>"
    using p0 by (simp add: abs_mult)
  also have "\<dots> \<le> 1 * (1 / 2)"
    using p0 p1 round_half_even_error [of "x / p"] by (intro mult_mono) simp_all
  finally show ?thesis
    by simp
qed

text \<open>
  Two familiar values: the binary64 number nearest to one tenth, and a tie, which goes to
  the even significand.
\<close>

lemma b64_round_tenth: "b64_round (1 / 10) = 3602879701896397 / 2 ^ 55"
proof -
  have "b64_round (1 / 10) = of_int 7205759403792794 * 2 powr of_int (- 4 - 52)"
    by (rule b64_round_normal) (simp_all add: powr_minus)
  then show ?thesis
    by (simp add: powr_minus)
qed

lemma b64_round_tie: "b64_round (2 ^ 53 + 1) = 2 ^ 53"
proof -
  have "round_half_even ((2 ^ 53 + 1) / 2) = 2 ^ 52"
    by (simp add: round_half_even_def Let_def)
  moreover have "b64_exponent (2 ^ 53 + 1) = 53 - 52"
    by (rule b64_exponent_eq) simp_all
  ultimately show ?thesis
    by (simp add: b64_round_def)
qed

text \<open>The constants of the loop in binary64.\<close>

lemma b64_pi: "a_pi b64 = 884279719003555 / 2 ^ 48"
proof -
  have "b64_round PI = of_int 7074237752028440 * 2 powr of_int (1 - 52)"
    by (rule b64_round_normal) (simp_all add: PI_def powr_minus)
  then show ?thesis
    by (simp add: b64_def powr_minus)
qed

lemma b64_two_pi: "a_add b64 (a_pi b64) (a_pi b64) = 884279719003555 / 2 ^ 47"
proof -
  have "b64_round (884279719003555 / 2 ^ 47) = of_int 7074237752028440 * 2 powr of_int (2 - 52)"
    by (rule b64_round_normal) (simp_all add: powr_minus)
  then have "b64_round (a_pi b64 + a_pi b64) = 884279719003555 / 2 ^ 47"
    by (simp add: b64_pi powr_minus)
  then show ?thesis
    by (simp add: b64_def)
qed

lemma b64_four_pi: "a_mul b64 (a_pi b64) 4 = 884279719003555 / 2 ^ 46"
proof -
  have "b64_round (884279719003555 / 2 ^ 46) = of_int 7074237752028440 * 2 powr of_int (3 - 52)"
    by (rule b64_round_normal) (simp_all add: powr_minus)
  then have "b64_round (a_pi b64 * 4) = 884279719003555 / 2 ^ 46"
    by (simp add: b64_pi powr_minus)
  then show ?thesis
    by (simp add: b64_def)
qed

lemma b64_deg: "a_div b64 (a_pi b64) 180 = 5030569068109113 / 2 ^ 58"
proof -
  have "b64_round (884279719003555 / 2 ^ 48 / 180) = of_int 5030569068109113 * 2 powr of_int (- 6 - 52)"
    by (rule b64_round_normal) (simp_all add: powr_minus)
  then have "b64_round (a_pi b64 / 180) = 5030569068109113 / 2 ^ 58"
    by (simp add: b64_pi powr_minus)
  then show ?thesis
    by (simp add: b64_def)
qed

subsection \<open>The loop under both arithmetics\<close>

lemma d_ra_in_exact:
  "d_ra_in exact sat_ra target_deg = Some (d_ra_of sat_ra (target_deg * (PI / 180)))"
proof -
  have loop: "wrap_while exact d = Some (wrap_d_ra d)" for d
  proof (induction d rule: wrap_d_ra.induct)
    case (1 d)
    show ?case
    proof (cases "PI < d")
      case True
      then show ?thesis
        using 1 by (subst wrap_while.simps) (simp add: wrap_d_ra.simps [of d] exact_def)
    next
      case False
      then show ?thesis
        by (subst wrap_while.simps) (simp add: wrap_d_ra.simps [of d] exact_def)
    qed
  qed
  show ?thesis
    unfolding d_ra_in_def Let_def loop d_ra_of_def by (simp add: exact_def)
qed

lemma wrap_while_stuck:
  assumes "a_pi ar < d" "a_sub ar d (a_add ar (a_pi ar) (a_pi ar)) = d"
  shows "wrap_while ar d = None"
proof (rule ccontr)
  assume "wrap_while ar d \<noteq> None"
  then obtain y where y: "wrap_while ar d = Some y"
    by auto
  have "\<not> (ar = ar \<and> d = d)"
  proof (rule wrap_while.raw_induct [where P = "\<lambda>a x y. \<not> (a = ar \<and> x = d)", OF _ y])
    fix w a x z
    assume ih: "\<And>a x z. w a x = Some z \<Longrightarrow> \<not> (a = ar \<and> x = d)"
      and body: "(if a_pi a < x then w a (a_sub a x (a_add a (a_pi a) (a_pi a))) else Some x) = Some z"
    show "\<not> (a = ar \<and> x = d)"
    proof
      assume "a = ar \<and> x = d"
      with body assms have "w ar d = Some z"
        by simp
      with ih show False
        by blast
    qed
  qed
  then show False
    by simp
qed

lemma b64_target_far:
  "a_mul b64 (- (2 ^ 66)) (a_div b64 (a_pi b64) 180) = - 1287825681435932928"
proof -
  have "b64_round (- (2 ^ 66) * (5030569068109113 / 2 ^ 58))
          = of_int (- 5030569068109113) * 2 powr of_int (60 - 52)"
    by (rule b64_round_normal) simp_all
  then show ?thesis
    unfolding b64_deg by (simp add: b64_def)
qed

lemma b64_entry_far:
  "a_add b64 (a_sub b64 0 (a_mul b64 (- (2 ^ 66)) (a_div b64 (a_pi b64) 180))) (a_mul b64 (a_pi b64) 4)
     = 1287825681435932928"
proof -
  have s: "b64_round (0 - - 1287825681435932928) = of_int 5030569068109113 * 2 powr of_int (60 - 52)"
    by (rule b64_round_normal) simp_all
  have a: "b64_round (1287825681435932928 + 884279719003555 / 2 ^ 46)
             = of_int 5030569068109113 * 2 powr of_int (60 - 52)"
    by (rule b64_round_normal) simp_all
  have "a_sub b64 0 (- 1287825681435932928) = 1287825681435932928"
    using s by (simp add: b64_def)
  moreover have "a_add b64 1287825681435932928 (884279719003555 / 2 ^ 46) = 1287825681435932928"
    using a by (simp add: b64_def)
  ultimately show ?thesis
    unfolding b64_four_pi b64_target_far by simp
qed

lemma b64_absorbed:
  "a_sub b64 1287825681435932928 (a_add b64 (a_pi b64) (a_pi b64)) = 1287825681435932928"
proof -
  have "b64_round (1287825681435932928 - 884279719003555 / 2 ^ 47)
          = of_int 5030569068109113 * 2 powr of_int (60 - 52)"
    by (rule b64_round_normal) simp_all
  then show ?thesis
    unfolding b64_two_pi by (simp add: b64_def)
qed

lemma wrap_b64_step:
  assumes "a_pi b64 < d" "d \<le> 2 ^ 53"
  shows "a_sub b64 d (a_add b64 (a_pi b64) (a_pi b64)) \<le> d - 5"
proof -
  define y :: real where "y = d - 884279719003555 / 2 ^ 47"
  have "\<bar>y\<bar> < 2 ^ 53"
    using assms by (simp add: y_def b64_pi abs_less_iff)
  then have "\<bar>b64_round y - y\<bar> \<le> 1 / 2"
    by (rule b64_round_error)
  then have "b64_round y \<le> y + 1 / 2"
    by linarith
  also have "\<dots> \<le> d - 5"
    by (simp add: y_def)
  finally show ?thesis
    unfolding b64_two_pi by (simp add: b64_def y_def)
qed

lemma wrap_b64_returns:
  "d \<le> 2 ^ 53 \<Longrightarrow> \<exists>y. wrap_while b64 d = Some y"
proof (induction "nat \<lceil>d\<rceil>" arbitrary: d rule: less_induct)
  case less
  show ?case
  proof (cases "a_pi b64 < d")
    case False
    then show ?thesis
      by (subst wrap_while.simps) simp
  next
    case True
    define d' where "d' = a_sub b64 d (a_add b64 (a_pi b64) (a_pi b64))"
    have step: "d' \<le> d - 5"
      unfolding d'_def by (rule wrap_b64_step [OF True less.prems])
    have "3 < d"
      using True by (simp add: b64_pi)
    then have "0 < \<lceil>d\<rceil>"
      by linarith
    moreover have "\<lceil>d'\<rceil> \<le> \<lceil>d\<rceil> - 5"
      using step by (metis ceiling_diff_numeral ceiling_mono)
    ultimately have "nat \<lceil>d'\<rceil> < nat \<lceil>d\<rceil>"
      by linarith
    moreover have "d' \<le> 2 ^ 53"
      using step less.prems by linarith
    ultimately obtain y where "wrap_while b64 d' = Some y"
      using less.hyps by blast
    then show ?thesis
      using True by (subst wrap_while.simps) (simp add: d'_def)
  qed
qed

lemma b64_entry_bound:
  assumes "\<bar>sat_ra\<bar> \<le> 2 ^ 50" "\<bar>target_deg\<bar> \<le> 2 ^ 50"
  shows "a_add b64 (a_sub b64 sat_ra (a_mul b64 target_deg (a_div b64 (a_pi b64) 180)))
           (a_mul b64 (a_pi b64) 4) \<le> 2 ^ 53"
proof -
  define t1 where "t1 = b64_round (target_deg * (5030569068109113 / 2 ^ 58))"
  define t2 where "t2 = b64_round (sat_ra - t1)"
  define t3 where "t3 = b64_round (t2 + 884279719003555 / 2 ^ 46)"
  have "\<bar>target_deg * (5030569068109113 / 2 ^ 58)\<bar> \<le> 2 ^ 50 * (1 / 32)"
    unfolding abs_mult using assms(2) by (intro mult_mono) simp_all
  then have x1: "\<bar>target_deg * (5030569068109113 / 2 ^ 58)\<bar> \<le> 2 ^ 45"
    by simp
  then have "\<bar>t1 - target_deg * (5030569068109113 / 2 ^ 58)\<bar> \<le> 1 / 2"
    unfolding t1_def by (intro b64_round_error) simp
  with x1 have b1: "\<bar>t1\<bar> \<le> 2 ^ 45 + 1 / 2"
    by linarith
  with assms(1) have x2: "\<bar>sat_ra - t1\<bar> \<le> 2 ^ 50 + 2 ^ 45 + 1 / 2"
    by linarith
  then have "\<bar>t2 - (sat_ra - t1)\<bar> \<le> 1 / 2"
    unfolding t2_def by (intro b64_round_error) simp
  with x2 have b2: "\<bar>t2\<bar> \<le> 2 ^ 50 + 2 ^ 45 + 1"
    by linarith
  then have x3: "\<bar>t2 + 884279719003555 / 2 ^ 46\<bar> \<le> 2 ^ 50 + 2 ^ 45 + 14"
    by (simp add: abs_le_iff)
  then have "\<bar>t3 - (t2 + 884279719003555 / 2 ^ 46)\<bar> \<le> 1 / 2"
    unfolding t3_def by (intro b64_round_error) simp
  with x3 have "t3 \<le> 2 ^ 50 + 2 ^ 45 + 14 + 1 / 2"
    by linarith
  then have "t3 \<le> 2 ^ 53"
    by simp
  then show ?thesis
    unfolding b64_deg b64_four_pi by (simp add: b64_def t1_def t2_def t3_def)
qed

subsection \<open>The run over its memory\<close>

declare epoch_loop_mem.simps [simp del]

lemma frame_of_sel:
  "f_inputs (frame_of m) = m_inputs m" "f_tle (frame_of m) = m_tle m"
  "f_outputs (frame_of m) = m_outputs m"
  by (simp_all add: frame_of_def)

lemma propagate_mem_frame:
  "m_tle (propagate_mem c m) = snd (propagate c (m_is_deep m) (m_t_since m) (m_tle m))"
  "m_pos (propagate_mem c m) = snd (fst (propagate c (m_is_deep m) (m_t_since m) (m_tle m)))"
  "m_inputs (propagate_mem c m) = m_inputs m"
  "m_outputs (propagate_mem c m) = m_outputs m"
  "m_observer_loc (propagate_mem c m) = m_observer_loc m"
  by (simp_all add: propagate_mem_def propagate_def Let_def case_prod_beta)

lemma apparent_mem_frame:
  "frame_of (apparent_mem c k m) = snd (apparent c k (frame_of m))"
  "m_ra (apparent_mem c k m) = fst (snd (fst (apparent c k (frame_of m))))"
  "m_dec (apparent_mem c k m) = fst (snd (snd (fst (apparent c k (frame_of m)))))"
  by (simp_all add: apparent_mem_def apparent_def frame_of_def Let_def case_prod_beta
      propagate_mem_frame)

lemma radius_mem_frame:
  "frame_of (radius_mem m) = frame_of m"
  "m_ra (radius_mem m) = m_ra m"
  "m_dec (radius_mem m) = m_dec m"
  "m_radius (radius_mem m) = radius_of (m_ra m) (m_dec m) (target_ra (m_inputs m)) (target_dec (m_inputs m))"
  by (simp_all add: radius_mem_def radius_of_def d_ra_of_def frame_of_def Let_def)

lemma store_match_mem_frame:
  "frame_of (store_match_mem k m) = store_match k (m_ra m) (m_dec m) (frame_of m)"
  by (simp add: store_match_mem_def store_match_def frame_of_def Let_def)

lemma epoch_body_mem_frame: "frame_of (epoch_body_mem c k m) = epoch_body c k (frame_of m)"
proof -
  obtain status sat_ra sat_dec dist_to_satellite fr1
    where ap: "apparent c k (frame_of m) = ((status, sat_ra, sat_dec, dist_to_satellite), fr1)"
    by (rule apparent_cases)
  define m1 where "m1 = radius_mem (apparent_mem c k m)"
  define m2 where "m2 = m1\<lparr>m_inputs := (m_inputs m1)\<lparr>header_line_shown := 1\<rparr>\<rparr>"
  have f1: "frame_of m1 = fr1" and r1: "m_ra m1 = sat_ra" and d1: "m_dec m1 = sat_dec"
    by (simp_all add: m1_def radius_mem_frame apparent_mem_frame ap)
  have i1: "m_inputs m1 = f_inputs fr1"
    using arg_cong [OF f1, of f_inputs] by (simp add: frame_of_sel)
  have i0: "m_inputs (apparent_mem c k m) = f_inputs fr1"
    using arg_cong [OF apparent_mem_frame(1) [of c k m], of f_inputs] by (simp add: frame_of_sel ap)
  have rad: "m_radius m1 = radius_of sat_ra sat_dec (target_ra (f_inputs fr1)) (target_dec (f_inputs fr1))"
    by (simp add: m1_def radius_mem_frame apparent_mem_frame ap i0)
  have "frame_of m2 = (frame_of m1)\<lparr>f_inputs := (m_inputs m1)\<lparr>header_line_shown := 1\<rparr>\<rparr>"
    by (simp add: m2_def frame_of_def)
  then have f2: "frame_of m2 = fr1\<lparr>f_inputs := (f_inputs fr1)\<lparr>header_line_shown := 1\<rparr>\<rparr>"
    by (simp add: f1 i1)
  have "epoch_body_mem c k m
          = (if m_radius m2 < search_radius (m_inputs m2) then store_match_mem k m2 else m2)"
    by (simp add: epoch_body_mem_def m1_def m2_def Let_def)
  then show ?thesis
    by (simp add: epoch_body_def ap Let_def store_match_mem_frame f2)
       (simp add: m2_def rad r1 d1 i1)
qed

lemma epoch_loop_mem_unroll: "epoch_loop_mem c 0 m = epoch_body_mem c 1 (epoch_body_mem c 0 m)"
  by (simp add: epoch_loop_mem.simps [of c 0] epoch_loop_mem.simps [of c "Suc 0"]
      epoch_loop_mem.simps [of c "Suc (Suc 0)"])

lemma calc_sat_mem_outputs: "fst (calc_sat_mem c stale inputs tle) = calc_sat c inputs tle"
proof -
  define m3 where "m3 =
    (let m0 = stale\<lparr>m_inputs := inputs, m_tle := tle\<rparr>;
         m1 = m0\<lparr>m_outputs := Outputs_init\<rparr>;
         m2 = m1\<lparr>m_inputs := (m_inputs m1)\<lparr>target_ra := target_ra (m_inputs m1) * (PI / 180)\<rparr>\<rparr>
     in m2\<lparr>m_inputs := (m_inputs m2)\<lparr>target_dec := target_dec (m_inputs m2) * (PI / 180)\<rparr>\<rparr>)"
  have "frame_of (epoch_loop_mem c 0 m3) = epoch_loop c 0 (frame_of m3)"
    by (simp add: epoch_loop_mem_unroll epoch_loop_unroll epoch_body_mem_frame)
  moreover have "frame_of m3 = entry_frame inputs tle"
    by (simp add: m3_def frame_of_def entry_frame_def Let_def)
  ultimately have "m_outputs (epoch_loop_mem c 0 m3) = calc_sat c inputs tle"
    using frame_of_sel(3) [of "epoch_loop_mem c 0 m3"] by (simp add: calc_sat_def calc_sat_frame_def)
  moreover have "fst (calc_sat_mem c stale inputs tle) = m_outputs (epoch_loop_mem c 0 m3)"
    by (simp add: calc_sat_mem_def Let_def m3_def)
  ultimately show ?thesis
    by simp
qed


lemma store_match_mem_dec: "m_dec (store_match_mem k m) = m_dec m"
  by (simp add: store_match_mem_def Let_def)

lemma epoch_body_mem_dec:
  "m_dec (epoch_body_mem c k m) = fst (snd (snd (fst (apparent c k (frame_of m)))))"
  by (simp add: epoch_body_mem_def Let_def store_match_mem_dec radius_mem_frame apparent_mem_frame)

lemma calc_sat_mem_leaves:
  "m_dec (snd (calc_sat_mem c stale inputs tle)) = snd (sat_position c inputs tle 1)"
proof -
  define m3 where "m3 =
    (let m0 = stale\<lparr>m_inputs := inputs, m_tle := tle\<rparr>;
         m1 = m0\<lparr>m_outputs := Outputs_init\<rparr>;
         m2 = m1\<lparr>m_inputs := (m_inputs m1)\<lparr>target_ra := target_ra (m_inputs m1) * (PI / 180)\<rparr>\<rparr>
     in m2\<lparr>m_inputs := (m_inputs m2)\<lparr>target_dec := target_dec (m_inputs m2) * (PI / 180)\<rparr>\<rparr>)"
  have "frame_of m3 = entry_frame inputs tle"
    by (simp add: m3_def frame_of_def entry_frame_def Let_def)
  then have "frame_of (epoch_body_mem c 0 m3) = frame_at c inputs tle 1"
    by (simp add: epoch_body_mem_frame)
  then have "m_dec (epoch_body_mem c 1 (epoch_body_mem c 0 m3)) = snd (sat_position c inputs tle 1)"
    by (simp add: epoch_body_mem_dec sat_position_def case_prod_beta)
  moreover have "snd (calc_sat_mem c stale inputs tle) = epoch_body_mem c 1 (epoch_body_mem c 0 m3)"
    by (simp add: calc_sat_mem_def Let_def m3_def epoch_loop_mem_unroll)
  ultimately show ?thesis
    by simp
qed

lemma status_drop_status: "propagation_status (drop_status c) inputs tle k = 0"
  by (simp add: propagation_status_def apparent_def Let_def case_prod_beta propagate_drop_status)

lemma calc_sat_drop_status: "calc_sat (drop_status c) inputs tle = calc_sat c inputs tle"
  by (simp add: calc_sat_def calc_sat_frame_def epoch_loop_unroll epoch_body_drop_status)

section \<open>The result slots\<close>

text \<open>
  Claim C1. For each epoch index \<open>k\<close> in \<open>{0, 1}\<close>: if the offset computed for that
  epoch is strictly below the search radius, the result slot of the epoch holds the
  apparent right ascension after \<^verbatim>\<open>fmod(ra + 10 PI, 2 PI)\<close> and the apparent
  declination, both converted to degrees; otherwise the slot keeps the initial pair
  \<open>(0, 0)\<close>.
\<close>

theorem calc_sat_slot:
  "k < 2 \<Longrightarrow>
   slot (calc_sat c inputs tle) k =
     (case sat_position c inputs tle k of
        (sat_ra, sat_dec) \<Rightarrow>
          if offset_deg c inputs tle k < search_radius inputs
          then (fmod (sat_ra + PI * 10) (PI + PI) * 180 / PI, sat_dec * 180 / PI)
          else (0, 0))"
  by (rule slot_of_run)

theorem calc_sat_slot_witness:
  "(0::nat) < 2 \<and>
   slot (calc_sat (sky_collab 0 (\<lambda>jd_k. (PI / 2, PI / 6))) Inputs_default tle_zero) 0 = (90, 30)"
proof -
  have off: "offset_deg (sky_collab 0 (\<lambda>jd_k. (PI / 2, PI / 6))) Inputs_default tle_zero 0 = 0"
    by (simp add: offset_deg_def sat_position_sky radius_of_def d_ra_of_def Inputs_default_def
        wrap_4pi)
  have sr: "search_radius Inputs_default = 10"
    by (simp add: Inputs_default_def)
  have "slot (calc_sat (sky_collab 0 (\<lambda>jd_k. (PI / 2, PI / 6))) Inputs_default tle_zero) 0
        = (fmod (PI / 2 + PI * 10) (PI + PI) * 180 / PI, PI / 6 * 180 / PI)"
    using calc_sat_slot [of 0 "sky_collab 0 (\<lambda>jd_k. (PI / 2, PI / 6))" Inputs_default tle_zero]
    unfolding sat_position_sky off sr by simp
  also have "\<dots> = (90, 30)"
    by (simp add: fmod_def trunc_def PI_def)
  finally show ?thesis
    by simp
qed

text \<open>
  Claim C5. For every input whose search radius is zero or negative no epoch matches:
  the offset is never negative and the comparison is strict, so the returned value is
  the initial pair \<open>(0, 0)\<close> for both epochs.
\<close>

theorem no_match_without_radius:
  "search_radius inputs \<le> 0 \<Longrightarrow>
   0 \<le> offset_deg c inputs tle k \<and> \<not> offset_deg c inputs tle k < search_radius inputs \<and>
   calc_sat c inputs tle = \<lparr>ra = [0, 0], dec = [0, 0]\<rparr>"
proof -
  assume sr: "search_radius inputs \<le> 0"
  have no: "\<not> offset_deg c inputs tle j < search_radius inputs" for j
    using offset_deg_nonneg [of c inputs tle j] sr by linarith
  have "slot (calc_sat c inputs tle) j = (0, 0)" if "j < 2" for j
    using slot_of_run [OF that, of c inputs tle] no [of j] by (simp split: prod.splits)
  from this [of 0] this [of 1] have "calc_sat c inputs tle = \<lparr>ra = [0, 0], dec = [0, 0]\<rparr>"
    using run_by_slots [of c inputs tle] by simp
  then show ?thesis
    using offset_deg_nonneg [of c inputs tle k] no [of k] by simp
qed

text \<open>
  The instance: the satellite stands exactly on the target (offset 0) and the search
  radius is 0.
\<close>

theorem no_match_without_radius_witness:
  "search_radius (Inputs_default\<lparr>search_radius := 0\<rparr>) \<le> 0 \<and>
   offset_deg (sky_collab 0 (\<lambda>jd_k. (PI / 2, PI / 6))) (Inputs_default\<lparr>search_radius := 0\<rparr>) tle_zero 0 = 0 \<and>
   calc_sat (sky_collab 0 (\<lambda>jd_k. (PI / 2, PI / 6))) (Inputs_default\<lparr>search_radius := 0\<rparr>) tle_zero
     = \<lparr>ra = [0, 0], dec = [0, 0]\<rparr>"
  using no_match_without_radius [of "Inputs_default\<lparr>search_radius := 0\<rparr>"
      "sky_collab 0 (\<lambda>jd_k. (PI / 2, PI / 6))" tle_zero 0] offset_on_target [of 0 0 0]
  by simp

section \<open>The offset\<close>

text \<open>
  Claim C2. The difference in right ascension is \<open>ra - target_ra + 4 PI\<close>, reduced by
  subtracting \<open>2 PI\<close> as long as it exceeds \<open>PI\<close>. The result never exceeds \<open>PI\<close> and is
  the start value less a whole number of turns; it can stay below \<open>- PI\<close> (a target at
  1080 degrees and an apparent right ascension of 0 give \<open>- 2 PI\<close>). For a target at 1
  degree and an apparent right ascension of 359 degrees the difference is -2 degrees
  and, at equal declinations, the offset is 2 degrees.
\<close>

theorem d_ra_wraps_from_above_only:
  "d_ra_of sat_ra tgt_ra \<le> PI \<and>
   (\<exists>n::nat. d_ra_of sat_ra tgt_ra = sat_ra - tgt_ra + PI * 4 - of_nat n * (PI + PI)) \<and>
   d_ra_of 0 (1080 * (PI / 180)) = - (PI + PI) \<and>
   d_ra_of 0 (1080 * (PI / 180)) < - PI \<and>
   d_ra_of (359 * PI / 180) (1 * (PI / 180)) = - (2 * PI / 180) \<and>
   radius_of (359 * PI / 180) sat_dec (1 * (PI / 180)) sat_dec = 2"
proof -
  have a: "d_ra_of 0 (1080 * (PI / 180)) = - (PI + PI)"
    by (simp add: d_ra_of_def PI_def wrap_d_ra.simps)
  have seam: "d_ra_of (359 * PI / 180) (1 * (PI / 180)) = - (2 * PI / 180)"
    by (simp add: d_ra_of_def PI_def wrap_d_ra.simps)
  have b: "radius_of (359 * PI / 180) sat_dec (1 * (PI / 180)) sat_dec = 2"
    unfolding radius_of_same_dec seam using PI_pos by simp
  show ?thesis
    using wrap_d_ra_le wrap_d_ra_steps a b seam PI_pos unfolding d_ra_of_def by simp
qed

text \<open>
  Claim C3. The offset is the planar Euclidean distance
  \<open>sqrt (d_ra\<^sup>2 + d_dec\<^sup>2) * 180 / PI\<close> of the differences in radians, where \<open>d_dec\<close> is the
  plain difference of the declinations. No factor depends on the declination itself:
  moving the satellite and the target by the same amount in declination leaves the offset
  unchanged, and ten degrees of right ascension at declination 60 degrees count as ten
  degrees.
\<close>

theorem radius_is_planar:
  "radius_of sat_ra sat_dec tgt_ra tgt_dec
     = planar_offset_deg (d_ra_of sat_ra tgt_ra) (sat_dec - tgt_dec) \<and>
   radius_of sat_ra (sat_dec + s) tgt_ra (tgt_dec + s) = radius_of sat_ra sat_dec tgt_ra tgt_dec \<and>
   radius_of (10 * PI / 180) (PI / 3) 0 (PI / 3) = 10"
proof -
  have d: "d_ra_of (10 * PI / 180) 0 = 10 * PI / 180"
    by (simp add: d_ra_of_def PI_def wrap_d_ra.simps)
  have "radius_of (10 * PI / 180) (PI / 3) 0 (PI / 3) = 10"
    unfolding radius_of_same_dec d using PI_pos by simp
  then show ?thesis
    by (simp add: radius_of_def planar_offset_deg_def Let_def power2_eq_square)
qed

section \<open>The range of a matched slot\<close>

text \<open>
  Claim C4. Whenever an epoch is matched, the right ascension written to its slot lies
  in \<open>[0, 360)\<close> and the declination in \<open>[-90, 90]\<close>, for every apparent position. The
  comment at line 168 says the same of the right ascension (\<^verbatim>\<open>Put RA into 0 to 2pi range\<close>).
  Line 169 misses it for an apparent right ascension below \<open>- 10 PI\<close>: \<^verbatim>\<open>fmod\<close> keeps the
  sign of its first argument. With the satellite at right ascension \<open>- 11 PI\<close> and the
  target at -1260 degrees the epoch is matched and the slot holds -180 degrees.
\<close>

theorem matched_slot_negative_ra:
  "offset_deg (sky_collab 0 (\<lambda>jd_k. (- (11 * PI), 0))) Inputs_far tle_zero 0
     < search_radius Inputs_far \<and>
   slot (calc_sat (sky_collab 0 (\<lambda>jd_k. (- (11 * PI), 0))) Inputs_far tle_zero) 0 = (- 180, 0)"
proof -
  have sr: "search_radius Inputs_far = 10"
    by (simp add: Inputs_far_def Inputs_default_def)
  have "slot (calc_sat (sky_collab 0 (\<lambda>jd_k. (- (11 * PI), 0))) Inputs_far tle_zero) 0
        = (fmod (- (11 * PI) + PI * 10) (PI + PI) * 180 / PI, 0 * 180 / PI)"
    using slot_of_run [of 0 "sky_collab 0 (\<lambda>jd_k. (- (11 * PI), 0))" Inputs_far tle_zero]
    unfolding sat_position_sky offset_far sr by simp
  also have "\<dots> = (- 180, 0)"
    by (simp add: fmod_def trunc_def PI_def ceiling_def)
  finally show ?thesis
    by (simp add: offset_far sr)
qed

text \<open>
  Where line 169 does what its comment says: an apparent right ascension of at least
  \<open>- 10 PI\<close> is written within \<open>[0, 360)\<close>, and an apparent declination within
  \<open>[- PI / 2, PI / 2]\<close> is written within \<open>[-90, 90]\<close>.
\<close>

lemma matched_slot_in_range:
  assumes "k < 2"
    and "offset_deg c inputs tle k < search_radius inputs"
    and "sat_position c inputs tle k = (sat_ra, sat_dec)"
    and "- (PI * 10) \<le> sat_ra"
    and "- (PI / 2) \<le> sat_dec" and "sat_dec \<le> PI / 2"
  shows "0 \<le> fst (slot (calc_sat c inputs tle) k) \<and> fst (slot (calc_sat c inputs tle) k) < 360 \<and>
         - 90 \<le> snd (slot (calc_sat c inputs tle) k) \<and> snd (slot (calc_sat c inputs tle) k) \<le> 90"
proof -
  have "slot (calc_sat c inputs tle) k
          = (fmod (sat_ra + PI * 10) (PI + PI) * 180 / PI, sat_dec * 180 / PI)"
    using slot_of_run [OF assms(1), of c inputs tle] assms(2,3) by simp
  then show ?thesis
    using ra_degrees_range [OF assms(4)] dec_degrees_range [OF assms(5,6)] by simp
qed

section \<open>Runs and their state\<close>

text \<open>
  Claim C6. \<^verbatim>\<open>calc_sat\<close> is deterministic: two runs on the same inputs and element set
  return the same value whatever memory they start in, in particular when the second
  run starts in the memory the first left behind (which holds values of the first run,
  such as the declination of its last epoch); and the returned value does not depend on
  the members of the inputs that hold intermediate values (\<^verbatim>\<open>rho_sin_phi\<close>,
  \<^verbatim>\<open>rho_cos_phi\<close>, \<^verbatim>\<open>i\<close>, \<^verbatim>\<open>header_line_shown\<close>). It is the value of \<open>calc_sat\<close>, the
  function of the library routines, the inputs and the element set alone.
\<close>

theorem calc_sat_deterministic:
  "fst (calc_sat_mem c stale inputs tle) = fst (calc_sat_mem c stale' inputs tle) \<and>
   fst (calc_sat_mem c (snd (calc_sat_mem c stale inputs tle)) inputs tle)
     = fst (calc_sat_mem c stale inputs tle) \<and>
   m_dec (snd (calc_sat_mem c stale inputs tle)) = snd (sat_position c inputs tle 1) \<and>
   fst (calc_sat_mem c stale
          (inputs\<lparr>rho_sin_phi := a, rho_cos_phi := b, inputs_i := n, header_line_shown := h\<rparr>) tle)
     = fst (calc_sat_mem c stale inputs tle) \<and>
   fst (calc_sat_mem c stale inputs tle) = calc_sat c inputs tle"
proof -
  have "calc_sat c (inputs\<lparr>rho_sin_phi := a, rho_cos_phi := b, inputs_i := n, header_line_shown := h\<rparr>) tle
     = calc_sat c inputs tle"
    by (rule calc_sat_core) (simp add: core_def entry_frame_def)
  then show ?thesis
    by (simp add: calc_sat_mem_outputs calc_sat_mem_leaves)
qed

text \<open>
  Claim C7. The two epochs are evaluated independently: with library routines that only
  read the element set, exchanging \<^verbatim>\<open>jd[0]\<close> and \<^verbatim>\<open>jd[1]\<close> exchanges the two slots of
  the right ascensions and of the declinations in the returned value.
\<close>

theorem epochs_independent:
  "tle_const c \<Longrightarrow>
   calc_sat c (inputs\<lparr>jd := [jd inputs ! 1, jd inputs ! 0]\<rparr>) tle = swap_outputs (calc_sat c inputs tle)"
proof -
  assume tc: "tle_const c"
  have "slot (calc_sat c (inputs\<lparr>jd := [jd inputs ! 1, jd inputs ! 0]\<rparr>) tle) 0
          = slot (calc_sat c inputs tle) 1"
    by (rule slot_cong [OF tc]) simp_all
  moreover have "slot (calc_sat c (inputs\<lparr>jd := [jd inputs ! 1, jd inputs ! 0]\<rparr>) tle) 1
          = slot (calc_sat c inputs tle) 0"
    by (rule slot_cong [OF tc]) simp_all
  ultimately show ?thesis
    using run_by_slots [of c "inputs\<lparr>jd := [jd inputs ! 1, jd inputs ! 0]\<rparr>" tle]
    by (simp add: swap_outputs_def slot_def)
qed

theorem epochs_independent_witness:
  "tle_const (sky_collab 0 two_skies) \<and>
   calc_sat (sky_collab 0 two_skies) Inputs_default tle_zero = \<lparr>ra = [90, 0], dec = [30, 0]\<rparr> \<and>
   calc_sat (sky_collab 0 two_skies) (Inputs_default\<lparr>jd := [2452623.6, 2452623.5]\<rparr>) tle_zero
     = \<lparr>ra = [0, 90], dec = [0, 30]\<rparr>"
proof -
  have jd: "[jd Inputs_default ! 1, jd Inputs_default ! 0] = [2452623.6, 2452623.5]"
    by (simp add: Inputs_default_def)
  show ?thesis
    using epochs_independent [OF tle_const_sky, of 0 two_skies Inputs_default tle_zero]
    unfolding jd calc_sat_two_skies
    by (simp add: tle_const_sky swap_outputs_def)
qed

text \<open>
  Claim C9. After a call the caller's element set is what it was, whatever the library
  routines do with the pointer they receive: the library \<open>scribbler\<close> changes the local
  copy, and the caller's element set is still unchanged.
\<close>

theorem caller_tle_unchanged:
  "c_tle (snd (call_calc_sat c s)) = c_tle s \<and>
   f_tle (calc_sat_frame scribbler Inputs_default tle_zero) \<noteq> tle_zero \<and>
   c_tle (snd (call_calc_sat scribbler \<lparr>c_inputs = Inputs_default, c_tle = tle_zero\<rparr>)) = tle_zero"
proof -
  have "epoch (f_tle (calc_sat_frame scribbler Inputs_default tle_zero)) \<noteq> epoch tle_zero"
    unfolding scribbler_local_tle by (simp add: tle_zero_def)
  then have "f_tle (calc_sat_frame scribbler Inputs_default tle_zero) \<noteq> tle_zero"
    by auto
  then show ?thesis
    by (simp add: call_calc_sat_def)
qed

section \<open>Failing propagation\<close>

text \<open>
  Claim C8, as stated: when the propagator fails at an epoch, \<^verbatim>\<open>calc_sat\<close> does not mask
  the failure. It does: with a propagator that returns a non-zero status at every epoch
  the call returns the same value as with one that reports success, and the failed
  epoch 0 is reported as a match at \<open>(90, 30)\<close>.
\<close>

theorem failed_propagation_masked:
  "propagation_status (sky_collab 1 two_skies) Inputs_default tle_zero 0 \<noteq> 0 \<and>
   propagation_status (sky_collab 0 two_skies) Inputs_default tle_zero 0 = 0 \<and>
   calc_sat (sky_collab 1 two_skies) Inputs_default tle_zero = \<lparr>ra = [90, 0], dec = [30, 0]\<rparr> \<and>
   calc_sat (sky_collab 0 two_skies) Inputs_default tle_zero = \<lparr>ra = [90, 0], dec = [30, 0]\<rparr>"
  by (simp add: propagation_status_sky calc_sat_two_skies)

text \<open>
  Claim C8, amended: \<^verbatim>\<open>calc_sat\<close> has no error path and does not report a failed
  propagation; the status the propagators return is discarded. Each of the two epochs
  is evaluated from the position the routines left, whatever the status at either
  epoch: the slot of epoch \<open>k\<close> holds the normalised position if the offset is below the
  search radius and \<open>(0, 0)\<close> otherwise, and the returned value is the one returned with
  propagators that report success and leave the same positions.
\<close>

theorem propagation_status_ignored:
  "k < 2 \<Longrightarrow>
   propagation_status (drop_status c) inputs tle k = 0 \<and>
   calc_sat (drop_status c) inputs tle = calc_sat c inputs tle \<and>
   slot (calc_sat c inputs tle) k =
     (case sat_position c inputs tle k of
        (sat_ra, sat_dec) \<Rightarrow>
          if offset_deg c inputs tle k < search_radius inputs
          then (fmod (sat_ra + PI * 10) (PI + PI) * 180 / PI, sat_dec * 180 / PI)
          else (0, 0))"
  using slot_of_run [of k c inputs tle] by (simp add: status_drop_status calc_sat_drop_status)

text \<open>
  The instance: the propagator fails at epoch 0, and slot 0 holds the match
  \<open>(90, 30)\<close>.
\<close>

theorem propagation_status_ignored_witness:
  "(0::nat) < 2 \<and>
   propagation_status (sky_collab 1 two_skies) Inputs_default tle_zero 0 = 1 \<and>
   propagation_status (drop_status (sky_collab 1 two_skies)) Inputs_default tle_zero 0 = 0 \<and>
   calc_sat (drop_status (sky_collab 1 two_skies)) Inputs_default tle_zero
     = \<lparr>ra = [90, 0], dec = [30, 0]\<rparr> \<and>
   slot (calc_sat (sky_collab 1 two_skies) Inputs_default tle_zero) 0 = (90, 30)"
  using propagation_status_ignored [of 0 "sky_collab 1 two_skies" Inputs_default tle_zero]
  by (simp add: calc_sat_two_skies propagation_status_sky slot_def)

section \<open>Termination of the wrap-around loop\<close>

text \<open>
  Claim C10, as stated: for finite apparent and target right ascensions the loop
  terminates, since each iteration lowers \<^verbatim>\<open>d_ra\<close> by \<open>2 PI\<close>. In binary64 arithmetic
  it does not: with an apparent right ascension of 0 and a target right ascension of
  \<open>- 2\<^sup>6\<^sup>6\<close> degrees, \<^verbatim>\<open>d_ra\<close> enters the loop as 1287825681435932928, where neighbouring
  binary64 numbers are 256 apart; the subtraction of \<open>PI + PI\<close> rounds back to the same
  number, and the loop never exits.
\<close>

theorem wrap_b64_diverges:
  "a_mul b64 (- (2 ^ 66)) (a_div b64 (a_pi b64) 180) = - 1287825681435932928 \<and>
   a_add b64 (a_sub b64 0 (- 1287825681435932928)) (a_mul b64 (a_pi b64) 4) = 1287825681435932928 \<and>
   a_pi b64 < 1287825681435932928 \<and>
   a_sub b64 1287825681435932928 (a_add b64 (a_pi b64) (a_pi b64)) = 1287825681435932928 \<and>
   d_ra_in b64 0 (- (2 ^ 66)) = None"
proof -
  have gt: "a_pi b64 < 1287825681435932928"
    by (simp add: b64_pi)
  then have "wrap_while b64 1287825681435932928 = None"
    using b64_absorbed by (rule wrap_while_stuck)
  then have "d_ra_in b64 0 (- (2 ^ 66)) = None"
    unfolding d_ra_in_def Let_def b64_entry_far .
  then show ?thesis
    using gt b64_absorbed b64_target_far b64_entry_far [unfolded b64_target_far] by simp
qed

text \<open>
  Claim C10, amended: in exact arithmetic the loop terminates for every apparent and
  target right ascension, with the result the total function \<open>wrap_d_ra\<close> of the
  embedding computes; in binary64 arithmetic it terminates whenever the apparent right
  ascension (radians) and the target right ascension (degrees) are of magnitude at most
  \<open>2\<^sup>5\<^sup>0\<close>.
\<close>

theorem wrap_terminates:
  "d_ra_in exact sat_ra target_deg = Some (d_ra_of sat_ra (target_deg * (PI / 180))) \<and>
   (\<bar>sat_ra\<bar> \<le> 2 ^ 50 \<and> \<bar>target_deg\<bar> \<le> 2 ^ 50 \<longrightarrow> (\<exists>y. d_ra_in b64 sat_ra target_deg = Some y))"
  using b64_entry_bound [of sat_ra target_deg] wrap_b64_returns
  by (simp add: d_ra_in_exact) (simp add: d_ra_in_def Let_def)

theorem wrap_terminates_witness:
  "\<bar>0 :: real\<bar> \<le> 2 ^ 50 \<and> \<bar>90 :: real\<bar> \<le> 2 ^ 50 \<and>
   d_ra_in exact 0 90 = Some (d_ra_of 0 (90 * (PI / 180))) \<and>
   (\<exists>y. d_ra_in b64 0 90 = Some y)"
  using wrap_terminates [of 0 90] by simp

end
